theory Spec2Isabelle
  imports Complex_Main "HOL-Library.Sublist"
begin

section \<open>Exceptions and Python list indexing\<close>

text \<open>
  Every exception of the modelled modules is a value. \<open>RayTracingException\<close>,
  \<open>PixelizationException\<close> and \<open>PointSourceExtractionException\<close> are the classes of
  the package's \<open>exc\<close> module that the sources raise, each with its message.
  \<open>IndexError\<close>, \<open>AttributeError\<close> and \<open>TypeError\<close> are Python's built-in
  exceptions. \<open>GeometryException\<close> is named by the specification only: no source
  file raises it.
\<close>

datatype error =
    RayTracingException string
  | PixelizationException string
  | PointSourceExtractionException string
  | GeometryException string
  | IndexError
  | AttributeError
  | TypeError

text \<open>\<open>xs[i]\<close> of a Python list: a negative index counts from the end, an index
  outside \<open>-len .. len - 1\<close> raises \<open>IndexError\<close>.\<close>

definition py_index :: "'a list \<Rightarrow> int \<Rightarrow> error + 'a" where
  "py_index xs i =
     (if 0 \<le> i \<and> i < int (length xs) then Inr (xs ! nat i)
      else if i < 0 \<and> - int (length xs) \<le> i then Inr (xs ! nat (int (length xs) + i))
      else Inl IndexError)"

section \<open>Coordinates, grids and numpy arithmetic\<close>

text \<open>
  Floating-point numbers are idealised as reals throughout. A grid is a numpy array of
  shape \<open>(n, 2)\<close>: a list of \<open>(y, x)\<close> coordinates.
\<close>

type_synonym coord = "real \<times> real"
type_synonym grid = "coord list"

text \<open>
  The value of Python's \<open>sum(map(f, galaxies))\<close> over numpy arrays: \<open>sum\<close> starts
  from the integer 0, so the result is the scalar 0 for an empty list and an array
  otherwise. \<open>Scalar\<close> is a number that numpy broadcasts over every entry.
\<close>

datatype 'a ndarray = Scalar real | Array "'a list"

fun vadd :: "coord \<Rightarrow> coord \<Rightarrow> coord" where
  "vadd (a, b) (c, d) = (a + c, b + d)"

fun vsub :: "coord \<Rightarrow> coord \<Rightarrow> coord" where
  "vsub (a, b) (c, d) = (a - c, b - d)"

fun vscale :: "real \<Rightarrow> coord \<Rightarrow> coord" where
  "vscale s (a, b) = (s * a, s * b)"

text \<open>\<open>a + b\<close> on arrays of intensities (shape \<open>(n,)\<close>), with broadcasting of a
  scalar. Two arrays are always evaluated on the same grid, so they have one shape.\<close>

fun np_add :: "real ndarray \<Rightarrow> real ndarray \<Rightarrow> real ndarray" where
  "np_add (Scalar a) (Scalar b) = Scalar (a + b)"
| "np_add (Scalar a) (Array ys) = Array (map (\<lambda>y. a + y) ys)"
| "np_add (Array xs) (Scalar b) = Array (map (\<lambda>x. x + b) xs)"
| "np_add (Array xs) (Array ys) = Array (map2 (+) xs ys)"

text \<open>\<open>a + b\<close> on arrays of deflection vectors (shape \<open>(n, 2)\<close>).\<close>

fun np_add_vec :: "coord ndarray \<Rightarrow> coord ndarray \<Rightarrow> coord ndarray" where
  "np_add_vec (Scalar a) (Scalar b) = Scalar (a + b)"
| "np_add_vec (Scalar a) (Array ys) = Array (map (\<lambda>y. vadd (a, a) y) ys)"
| "np_add_vec (Array xs) (Scalar b) = Array (map (\<lambda>x. vadd x (b, b)) xs)"
| "np_add_vec (Array xs) (Array ys) = Array (map2 vadd xs ys)"

text \<open>\<open>np.multiply(scaling_factor, grid)\<close>: a number times a deflection field.\<close>

fun np_multiply :: "real \<Rightarrow> coord ndarray \<Rightarrow> coord ndarray" where
  "np_multiply s (Scalar c) = Scalar (s * c)"
| "np_multiply s (Array xs) = Array (map (vscale s) xs)"

text \<open>\<open>np.subtract(grid, deflections)\<close> and \<open>grid - deflections\<close>: the grid is an
  array of coordinates, the deflections are an array of the same shape or a scalar.\<close>

fun np_subtract :: "grid \<Rightarrow> coord ndarray \<Rightarrow> grid" where
  "np_subtract g (Scalar c) = map (\<lambda>v. vsub v (c, c)) g"
| "np_subtract g (Array ds) = map2 vsub g ds"

text \<open>Python's \<open>sum\<close>: a left fold of \<open>+\<close> from the integer 0.\<close>

definition py_sum :: "real ndarray list \<Rightarrow> real ndarray" where
  "py_sum xs = foldl np_add (Scalar 0) xs"

definition py_sum_vec :: "coord ndarray list \<Rightarrow> coord ndarray" where
  "py_sum_vec xs = foldl np_add_vec (Scalar 0) xs"

text \<open>The deflection vector that entry \<open>i\<close> of a deflection field stands for.\<close>

fun deflection_at :: "coord ndarray \<Rightarrow> nat \<Rightarrow> coord" where
  "deflection_at (Scalar c) i = (c, c)"
| "deflection_at (Array ds) i = ds ! i"

section \<open>Galaxies and grid bundles\<close>

text \<open>
  Modelled from the spec: the Galaxy class is not among the sources. A galaxy has an
  optional redshift, light profiles (coordinate to intensity), mass profiles
  (coordinate to deflection vector), an optional Einstein radius, capability flags and
  named point-source profiles. A galaxy without a light profile contributes zero
  intensity, one without a mass profile the zero vector.
\<close>

record point_source =
  centre :: coord
  flux :: "real option"
  class_name :: string

record galaxy =
  redshift :: "real option"
  light_profiles :: "(coord \<Rightarrow> real) list"
  mass_profiles :: "(coord \<Rightarrow> coord) list"
  einstein_radius :: "real option"
  has_pixelization :: bool
  has_regularization :: bool
  profiles :: "(string \<times> point_source) list"

definition has_light_profile :: "galaxy \<Rightarrow> bool" where
  "has_light_profile g = (light_profiles g \<noteq> [])"

definition has_mass_profile :: "galaxy \<Rightarrow> bool" where
  "has_mass_profile g = (mass_profiles g \<noteq> [])"

definition intensity_at :: "galaxy \<Rightarrow> coord \<Rightarrow> real" where
  "intensity_at g c = sum_list (map (\<lambda>p. p c) (light_profiles g))"

definition deflection_of :: "galaxy \<Rightarrow> coord \<Rightarrow> coord" where
  "deflection_of g c = foldr vadd (map (\<lambda>p. p c) (mass_profiles g)) (0, 0)"

definition intensity_from_grid :: "galaxy \<Rightarrow> grid \<Rightarrow> real ndarray" where
  "intensity_from_grid g coords = Array (map (intensity_at g) coords)"

definition deflections_from_grid :: "galaxy \<Rightarrow> grid \<Rightarrow> coord ndarray" where
  "deflections_from_grid g coords = Array (map (deflection_of g) coords)"

text \<open>
  Modelled from the spec: the grid bundle (\<open>CoordinateCollection\<close>, later
  \<open>GridStack\<close>) is not among the sources. It is the ordered sequence of the grid
  variants; \<open>apply_function\<close> applies a function to every variant, \<open>map_function\<close>
  applies a binary function to every variant and the matching entry of a second bundle.
\<close>

type_synonym 'a stack = "'a list"

definition apply_function :: "('a \<Rightarrow> 'b) \<Rightarrow> 'a stack \<Rightarrow> 'b stack" where
  "apply_function f b = map f b"

definition map_function :: "('a \<Rightarrow> 'b \<Rightarrow> 'c) \<Rightarrow> 'a stack \<Rightarrow> 'b stack \<Rightarrow> 'c stack" where
  "map_function f b args = map (\<lambda>(g, a). f g a) (zip b args)"

section \<open>ray_tracing.py: TracerGeometry\<close>

text \<open>
  The cosmology is astropy's, an external library: its functions are parameters, with
  the unit conversions (\<open>.to('kpc').value\<close>) already applied.
\<close>

record cosmology =
  angular_diameter_distance :: "real \<Rightarrow> real"
  angular_diameter_distance_z1z2 :: "real \<Rightarrow> real \<Rightarrow> real"
  arcsec_per_kpc_proper :: "real \<Rightarrow> real"
  critical_density :: "real \<Rightarrow> real"

text \<open>astropy's constants \<open>c\<close> (in kpc / s) and \<open>G\<close> (in kpc3 / (M_sun s2)).\<close>

record constants =
  c_kpc_s :: real
  G_kpc3_Msun_s2 :: real

text \<open>A cosmology function called on a redshift: astropy computes with the number, so
  a missing redshift (\<open>None\<close>) raises \<open>TypeError\<close>.\<close>

definition need_redshift :: "real option \<Rightarrow> error + real" where
  "need_redshift z = (case z of None \<Rightarrow> Inl TypeError | Some r \<Rightarrow> Inr r)"

record tracer_geometry =
  geo_cosmology :: cosmology
  redshifts :: "real option list"
  final_plane :: int
  ang_to_final_plane :: real

definition ang_to_earth_of ::
  "cosmology \<Rightarrow> real option list \<Rightarrow> int \<Rightarrow> error + real" where
  "ang_to_earth_of cosmo zs plane_i =
     (case py_index zs plane_i of Inl e \<Rightarrow> Inl e
      | Inr zo \<Rightarrow>
     (case need_redshift zo of Inl e \<Rightarrow> Inl e
      | Inr z \<Rightarrow> Inr (angular_diameter_distance cosmo z)))"

definition ang_to_earth :: "tracer_geometry \<Rightarrow> int \<Rightarrow> error + real" where
  "ang_to_earth geo plane_i = ang_to_earth_of (geo_cosmology geo) (redshifts geo) plane_i"

text \<open>\<open>TracerGeometry.__init__\<close>: the last statement reads
  \<open>redshifts[len(redshifts) - 1]\<close>, which is \<open>redshifts[-1]\<close> for an empty list.\<close>

definition TracerGeometry ::
  "real option list \<Rightarrow> cosmology \<Rightarrow> error + tracer_geometry" where
  "TracerGeometry zs cosmo =
     (let final = int (length zs) - 1
      in case ang_to_earth_of cosmo zs final of Inl e \<Rightarrow> Inl e
         | Inr d \<Rightarrow> Inr \<lparr>geo_cosmology = cosmo, redshifts = zs,
                          final_plane = final, ang_to_final_plane = d\<rparr>)"

definition arcsec_per_kpc :: "tracer_geometry \<Rightarrow> int \<Rightarrow> error + real" where
  "arcsec_per_kpc geo plane_i =
     (case py_index (redshifts geo) plane_i of Inl e \<Rightarrow> Inl e
      | Inr zo \<Rightarrow>
     (case need_redshift zo of Inl e \<Rightarrow> Inl e
      | Inr z \<Rightarrow> Inr (arcsec_per_kpc_proper (geo_cosmology geo) z)))"

definition kpc_per_arcsec :: "tracer_geometry \<Rightarrow> int \<Rightarrow> error + real" where
  "kpc_per_arcsec geo plane_i =
     (case py_index (redshifts geo) plane_i of Inl e \<Rightarrow> Inl e
      | Inr zo \<Rightarrow>
     (case need_redshift zo of Inl e \<Rightarrow> Inl e
      | Inr z \<Rightarrow> Inr (1 / arcsec_per_kpc_proper (geo_cosmology geo) z)))"

definition ang_between_planes :: "tracer_geometry \<Rightarrow> int \<Rightarrow> int \<Rightarrow> error + real" where
  "ang_between_planes geo plane_i plane_j =
     (case py_index (redshifts geo) plane_i of Inl e \<Rightarrow> Inl e
      | Inr zio \<Rightarrow>
     (case py_index (redshifts geo) plane_j of Inl e \<Rightarrow> Inl e
      | Inr zjo \<Rightarrow>
     (case need_redshift zio of Inl e \<Rightarrow> Inl e
      | Inr zi \<Rightarrow>
     (case need_redshift zjo of Inl e \<Rightarrow> Inl e
      | Inr zj \<Rightarrow> Inr (angular_diameter_distance_z1z2 (geo_cosmology geo) zi zj)))))"

definition constant_kpc :: "constants \<Rightarrow> real" where
  "constant_kpc k = (c_kpc_s k)\<^sup>2 / (4 * pi * G_kpc3_Msun_s2 k)"

definition critical_density_kpc ::
  "constants \<Rightarrow> tracer_geometry \<Rightarrow> int \<Rightarrow> int \<Rightarrow> error + real" where
  "critical_density_kpc k geo plane_i plane_j =
     (case ang_to_earth geo plane_j of Inl e \<Rightarrow> Inl e
      | Inr dj \<Rightarrow>
     (case ang_between_planes geo plane_i plane_j of Inl e \<Rightarrow> Inl e
      | Inr dij \<Rightarrow>
     (case ang_to_earth geo plane_i of Inl e \<Rightarrow> Inl e
      | Inr di \<Rightarrow> Inr (constant_kpc k * dj / (dij * di)))))"

definition critical_density_arcsec ::
  "constants \<Rightarrow> tracer_geometry \<Rightarrow> int \<Rightarrow> int \<Rightarrow> error + real" where
  "critical_density_arcsec k geo plane_i plane_j =
     (case critical_density_kpc k geo plane_i plane_j of Inl e \<Rightarrow> Inl e
      | Inr cd \<Rightarrow>
     (case kpc_per_arcsec geo plane_i of Inl e \<Rightarrow> Inl e
      | Inr kpa \<Rightarrow> Inr (cd * kpa\<^sup>2)))"

definition scaling_factor :: "tracer_geometry \<Rightarrow> int \<Rightarrow> int \<Rightarrow> error + real" where
  "scaling_factor geo plane_i plane_j =
     (case ang_between_planes geo plane_i plane_j of Inl e \<Rightarrow> Inl e
      | Inr dij \<Rightarrow>
     (case ang_to_earth geo plane_j of Inl e \<Rightarrow> Inl e
      | Inr dj \<Rightarrow>
     (case ang_between_planes geo plane_i (final_plane geo) of Inl e \<Rightarrow> Inl e
      | Inr dif \<Rightarrow> Inr ((dij * ang_to_final_plane geo) / (dj * dif)))))"

text \<open>A cosmology and constants to evaluate the geometry at: distances of a flat,
  empty toy universe.\<close>

definition toy_cosmology :: cosmology where
  "toy_cosmology =
     \<lparr>angular_diameter_distance = (\<lambda>z. z / (1 + z)),
      angular_diameter_distance_z1z2 = (\<lambda>z1 z2. (z2 - z1) / (1 + z2)),
      arcsec_per_kpc_proper = (\<lambda>z. 1 + z),
      critical_density = (\<lambda>z. 1)\<rparr>"

definition toy_constants :: constants where
  "toy_constants = \<lparr>c_kpc_s = 1, G_kpc3_Msun_s2 = 1\<rparr>"

definition toy_geometry :: tracer_geometry where
  "toy_geometry =
     \<lparr>geo_cosmology = toy_cosmology, redshifts = [Some (1/2), Some 1],
      final_plane = 1, ang_to_final_plane = 1/2\<rparr>"

section \<open>ray_tracing.py: Plane, Tracer and MultiTracer\<close>

text \<open>
  The \<open>Plane\<close> of ray_tracing.py. Its attribute \<open>deflections\<close> exists only when the
  plane was built with \<open>compute_deflections\<close>: \<open>None\<close> stands for the missing
  attribute. The constructor has no check on the galaxy list.
\<close>

record rt_plane =
  galaxies :: "galaxy list"
  coordinates_collection :: "grid stack"
  deflections :: "coord ndarray stack option"

definition rt_calculate_deflections :: "galaxy list \<Rightarrow> grid \<Rightarrow> coord ndarray" where
  "rt_calculate_deflections gals coords =
     py_sum_vec (map (\<lambda>g. deflections_from_grid g coords) gals)"

definition rt_Plane :: "galaxy list \<Rightarrow> grid stack \<Rightarrow> bool \<Rightarrow> rt_plane" where
  "rt_Plane gals coords compute_deflections =
     \<lparr>galaxies = gals, coordinates_collection = coords,
      deflections =
        (if compute_deflections
         then Some (apply_function (rt_calculate_deflections gals) coords)
         else None)\<rparr>"

definition trace_to_next_plane :: "rt_plane \<Rightarrow> error + grid stack" where
  "trace_to_next_plane p =
     (case deflections p of None \<Rightarrow> Inl AttributeError
      | Some d \<Rightarrow> Inr (map_function np_subtract (coordinates_collection p) d))"

definition intensities_via_grid :: "grid \<Rightarrow> galaxy list \<Rightarrow> real ndarray" where
  "intensities_via_grid coords_grid gals =
     py_sum (map (\<lambda>g. intensity_from_grid g coords_grid) gals)"

definition deflections_for_grid :: "grid \<Rightarrow> galaxy list \<Rightarrow> coord ndarray" where
  "deflections_for_grid coords_grid gals =
     py_sum_vec (map (\<lambda>g. deflections_from_grid g coords_grid) gals)"

definition traced_collection_for_deflections ::
  "grid stack \<Rightarrow> coord ndarray stack \<Rightarrow> grid stack" where
  "traced_collection_for_deflections coords defl = map_function np_subtract coords defl"

record tracer =
  geometry :: "tracer_geometry option"
  image_plane :: rt_plane
  source_plane :: rt_plane

text \<open>\<open>Tracer.__init__\<close>: the geometry is built only when a cosmology is given, from
  the redshifts of the first lens and the first source galaxy.\<close>

definition Tracer ::
  "galaxy list \<Rightarrow> galaxy list \<Rightarrow> grid stack \<Rightarrow> cosmology option \<Rightarrow> error + tracer" where
  "Tracer lens_galaxies source_galaxies image_plane_grids cosmo =
     (case (case cosmo of None \<Rightarrow> Inr None
            | Some c \<Rightarrow>
              (case py_index lens_galaxies 0 of Inl e \<Rightarrow> Inl e
               | Inr lens \<Rightarrow>
              (case py_index source_galaxies 0 of Inl e \<Rightarrow> Inl e
               | Inr source \<Rightarrow>
              (case TracerGeometry [redshift lens, redshift source] c of Inl e \<Rightarrow> Inl e
               | Inr geo \<Rightarrow> Inr (Some geo)))))
      of Inl e \<Rightarrow> Inl e
      | Inr geo \<Rightarrow>
          (let image = rt_Plane lens_galaxies image_plane_grids True
           in case trace_to_next_plane image of Inl e \<Rightarrow> Inl e
              | Inr source_plane_grids \<Rightarrow>
                  Inr \<lparr>geometry = geo, image_plane = image,
                       source_plane = rt_Plane source_galaxies source_plane_grids False\<rparr>))"

text \<open>
  \<open>sorted(galaxies, key=lambda galaxy: galaxy.redshift)\<close>: a stable sort. Python compares
  the keys as soon as there are two galaxies, and comparing \<open>None\<close> with a number or
  with \<open>None\<close> raises \<open>TypeError\<close>; a single galaxy is never compared.
\<close>

definition redshift_key :: "galaxy \<Rightarrow> real" where
  "redshift_key g = (case redshift g of None \<Rightarrow> 0 | Some z \<Rightarrow> z)"

definition sorted_by_redshift :: "galaxy list \<Rightarrow> error + galaxy list" where
  "sorted_by_redshift gals =
     (if 2 \<le> length gals \<and> list_ex (\<lambda>g. redshift g = None) gals then Inl TypeError
      else Inr (sort_key redshift_key gals))"

text \<open>\<open>[redshift for i, redshift in enumerate(zs) if redshift not in zs[:i]]\<close>\<close>

definition first_occurrences :: "'a list \<Rightarrow> 'a list" where
  "first_occurrences zs =
     map snd (filter (\<lambda>(i, z). z \<notin> set (take i zs)) (enumerate 0 zs))"

text \<open>The inner loop of \<open>MultiTracer.__init__\<close> over \<open>previous_plane_index\<close>: the
  running grid loses the previous plane's deflections, scaled to the current plane.\<close>

fun new_grid_loop ::
  "tracer_geometry \<Rightarrow> rt_plane list \<Rightarrow> nat \<Rightarrow> grid stack \<Rightarrow> nat list \<Rightarrow> error + grid stack"
where
  "new_grid_loop geo planes plane_index new_grid [] = Inr new_grid"
| "new_grid_loop geo planes plane_index new_grid (previous_plane_index # rest) =
     (case scaling_factor geo (int previous_plane_index) (int plane_index) of
        Inl e \<Rightarrow> Inl e
      | Inr sf \<Rightarrow>
     (case py_index planes (int previous_plane_index) of Inl e \<Rightarrow> Inl e
      | Inr previous \<Rightarrow>
     (case deflections previous of None \<Rightarrow> Inl AttributeError
      | Some d \<Rightarrow>
          new_grid_loop geo planes plane_index
            (map_function np_subtract new_grid (apply_function (np_multiply sf) d))
            rest)))"

text \<open>The loop over \<open>plane_index\<close>, with the list \<open>self.planes\<close> built so far.\<close>

fun planes_loop ::
  "tracer_geometry \<Rightarrow> nat \<Rightarrow> galaxy list list \<Rightarrow> grid stack \<Rightarrow> rt_plane list \<Rightarrow>
   nat list \<Rightarrow> error + rt_plane list"
where
  "planes_loop geo n planes_gals image_plane_grids planes [] = Inr planes"
| "planes_loop geo n planes_gals image_plane_grids planes (plane_index # rest) =
     (case (if int plane_index < int n - 1 then Inr True
            else if int plane_index = int n - 1 then Inr False
            else Inl (RayTracingException
              ''A galaxy was not correctly allocated its previous / next redshifts''))
      of Inl e \<Rightarrow> Inl e
      | Inr compute_deflections \<Rightarrow>
     (case (if 0 < plane_index
            then new_grid_loop geo planes plane_index image_plane_grids [0..<plane_index]
            else Inr image_plane_grids)
      of Inl e \<Rightarrow> Inl e
      | Inr new_grid \<Rightarrow>
     (case py_index planes_gals (int plane_index) of Inl e \<Rightarrow> Inl e
      | Inr gals \<Rightarrow>
          planes_loop geo n planes_gals image_plane_grids
            (planes @ [rt_Plane gals new_grid compute_deflections]) rest)))"

record multi_tracer =
  galaxies_redshift_order :: "galaxy list"
  planes_redshift_order :: "real option list"
  mt_geometry :: tracer_geometry
  planes_galaxies :: "galaxy list list"
  planes :: "rt_plane list"

definition MultiTracer :: "galaxy list \<Rightarrow> grid stack \<Rightarrow> cosmology \<Rightarrow> error + multi_tracer" where
  "MultiTracer gals image_plane_grids cosmo =
     (case sorted_by_redshift gals of Inl e \<Rightarrow> Inl e
      | Inr ordered \<Rightarrow>
          (let galaxy_redshifts = map redshift ordered;
               plane_zs = first_occurrences galaxy_redshifts
           in case TracerGeometry plane_zs cosmo of Inl e \<Rightarrow> Inl e
              | Inr geo \<Rightarrow>
                  (let planes_gals =
                         map (\<lambda>plane_redshift.
                                filter (\<lambda>g. redshift g = plane_redshift) ordered) plane_zs
                   in case planes_loop geo (length plane_zs) planes_gals image_plane_grids []
                             [0..<length plane_zs]
                      of Inl e \<Rightarrow> Inl e
                      | Inr ps \<Rightarrow>
                          Inr \<lparr>galaxies_redshift_order = ordered,
                               planes_redshift_order = plane_zs,
                               mt_geometry = geo,
                               planes_galaxies = planes_gals,
                               planes = ps\<rparr>)))"

section \<open>plane.py: AbstractPlane, AbstractGriddedPlane, Plane and PlaneSlice\<close>

record abstract_plane =
  plane_redshift :: "real option"
  plane_galaxies :: "galaxy list"
  plane_cosmology :: cosmology

text \<open>The decorator \<open>check_plane_for_redshift\<close>: the wrapped property is evaluated
  only when the plane has a redshift; otherwise the wrapper returns \<open>None\<close>.\<close>

definition check_plane_for_redshift ::
  "('z abstract_plane_scheme \<Rightarrow> error + 'a option) \<Rightarrow>
   'z abstract_plane_scheme \<Rightarrow> error + 'a option" where
  "check_plane_for_redshift func self =
     (if plane_redshift self \<noteq> None then func self else Inr None)"

text \<open>The bodies of the decorated properties, as written: each calls the cosmology on
  \<open>self.redshift\<close>, whatever it is.\<close>

definition arcsec_per_kpc_proper_body ::
  "'z abstract_plane_scheme \<Rightarrow> error + real option" where
  "arcsec_per_kpc_proper_body self =
     (case need_redshift (plane_redshift self) of Inl e \<Rightarrow> Inl e
      | Inr z \<Rightarrow> Inr (Some (arcsec_per_kpc_proper (plane_cosmology self) z)))"

definition plane_arcsec_per_kpc_proper ::
  "'z abstract_plane_scheme \<Rightarrow> error + real option" where
  "plane_arcsec_per_kpc_proper self =
     check_plane_for_redshift arcsec_per_kpc_proper_body self"

text \<open>\<open>1.0 / self.arcsec_per_kpc_proper\<close>: dividing by \<open>None\<close> is a \<open>TypeError\<close>.\<close>

definition kpc_per_arcsec_proper_body ::
  "'z abstract_plane_scheme \<Rightarrow> error + real option" where
  "kpc_per_arcsec_proper_body self =
     (case plane_arcsec_per_kpc_proper self of Inl e \<Rightarrow> Inl e
      | Inr None \<Rightarrow> Inl TypeError
      | Inr (Some a) \<Rightarrow> Inr (Some (1 / a)))"

definition plane_kpc_per_arcsec_proper ::
  "'z abstract_plane_scheme \<Rightarrow> error + real option" where
  "plane_kpc_per_arcsec_proper self =
     check_plane_for_redshift kpc_per_arcsec_proper_body self"

definition angular_diameter_distance_to_earth_body ::
  "'z abstract_plane_scheme \<Rightarrow> error + real option" where
  "angular_diameter_distance_to_earth_body self =
     (case need_redshift (plane_redshift self) of Inl e \<Rightarrow> Inl e
      | Inr z \<Rightarrow> Inr (Some (angular_diameter_distance (plane_cosmology self) z)))"

definition angular_diameter_distance_to_earth ::
  "'z abstract_plane_scheme \<Rightarrow> error + real option" where
  "angular_diameter_distance_to_earth self =
     check_plane_for_redshift angular_diameter_distance_to_earth_body self"

definition cosmic_average_mass_density_arcsec_body ::
  "'z abstract_plane_scheme \<Rightarrow> error + real option" where
  "cosmic_average_mass_density_arcsec_body self =
     (case need_redshift (plane_redshift self) of Inl e \<Rightarrow> Inl e
      | Inr z \<Rightarrow>
     (case plane_arcsec_per_kpc_proper self of Inl e \<Rightarrow> Inl e
      | Inr None \<Rightarrow> Inl TypeError
      | Inr (Some a) \<Rightarrow> Inr (Some (critical_density (plane_cosmology self) z / a ^ 3))))"

definition cosmic_average_mass_density_arcsec ::
  "'z abstract_plane_scheme \<Rightarrow> error + real option" where
  "cosmic_average_mass_density_arcsec self =
     check_plane_for_redshift cosmic_average_mass_density_arcsec_body self"

definition plane_has_mass_profile :: "'z abstract_plane_scheme \<Rightarrow> bool" where
  "plane_has_mass_profile self = list_ex has_mass_profile (plane_galaxies self)"

text \<open>\<open>sum(filter(None, ...))\<close> drops the radii that are \<open>None\<close> or zero; a plane
  without a mass profile falls off the end of the property, which returns \<open>None\<close>.\<close>

definition einstein_radius_arcsec :: "'z abstract_plane_scheme \<Rightarrow> real option" where
  "einstein_radius_arcsec self =
     (if plane_has_mass_profile self
      then Some (sum_list (filter (\<lambda>r. r \<noteq> 0)
                   (List.map_filter einstein_radius (plane_galaxies self))))
      else None)"

definition einstein_radius_kpc_body ::
  "'z abstract_plane_scheme \<Rightarrow> error + real option" where
  "einstein_radius_kpc_body self =
     (if plane_has_mass_profile self
      then (case plane_kpc_per_arcsec_proper self of Inl e \<Rightarrow> Inl e
            | Inr None \<Rightarrow> Inl TypeError
            | Inr (Some k) \<Rightarrow>
           (case einstein_radius_arcsec self of None \<Rightarrow> Inl TypeError
            | Some r \<Rightarrow> Inr (Some (k * r))))
      else Inr None)"

definition einstein_radius_kpc :: "'z abstract_plane_scheme \<Rightarrow> error + real option" where
  "einstein_radius_kpc self = check_plane_for_redshift einstein_radius_kpc_body self"

text \<open>The border of a grid is the list of its border pixels, or \<open>None\<close>.\<close>

record gridded_plane = abstract_plane +
  grid_stack :: "grid stack"
  border :: "nat list option"
  deflection_stack :: "coord ndarray stack option"

text \<open>\<open>calculate_deflections\<close> of \<open>AbstractGriddedPlane.__init__\<close>: without galaxies
  the field is \<open>np.full((grid.shape[0], 2), 0.0)\<close>.\<close>

definition calculate_deflections :: "galaxy list \<Rightarrow> grid \<Rightarrow> coord ndarray" where
  "calculate_deflections gals coords =
     (if gals \<noteq> [] then py_sum_vec (map (\<lambda>g. deflections_from_grid g coords) gals)
      else Array (replicate (length coords) (0, 0)))"

definition AbstractGriddedPlane ::
  "real option \<Rightarrow> galaxy list \<Rightarrow> grid stack \<Rightarrow> nat list option \<Rightarrow> bool \<Rightarrow> cosmology \<Rightarrow>
   gridded_plane" where
  "AbstractGriddedPlane z gals grids bord compute_deflections cosmo =
     \<lparr>plane_redshift = z, plane_galaxies = gals, plane_cosmology = cosmo,
      grid_stack = grids, border = bord,
      deflection_stack =
        (if compute_deflections then Some (apply_function (calculate_deflections gals) grids)
         else None)\<rparr>"

text \<open>\<open>trace_grid_stack_to_next_plane\<close>: \<open>map_function\<close> iterates over the deflection
  stack, so a plane built without deflections (\<open>None\<close>) raises \<open>TypeError\<close>.\<close>

definition trace_grid_stack_to_next_plane :: "gridded_plane \<Rightarrow> error + grid stack" where
  "trace_grid_stack_to_next_plane self =
     (case deflection_stack self of None \<Rightarrow> Inl TypeError
      | Some d \<Rightarrow> Inr (map_function np_subtract (grid_stack self) d))"

definition Plane ::
  "galaxy list \<Rightarrow> grid stack \<Rightarrow> nat list option \<Rightarrow> bool \<Rightarrow> cosmology \<Rightarrow>
   error + gridded_plane" where
  "Plane gals grids bord compute_deflections cosmo =
     (case gals of
        [] \<Rightarrow> Inl (RayTracingException ''An empty list of galaxies was supplied to Plane'')
      | first # _ \<Rightarrow>
          (let galaxy_redshifts = map redshift gals
           in if list_ex (\<lambda>z. z \<noteq> None) galaxy_redshifts \<and>
                 \<not> list_all (\<lambda>g. redshift first = redshift g) gals
              then Inl (RayTracingException
                (''The galaxies supplied to A Plane have different redshifts or one galaxy '' @
                 ''does not have a redshift.''))
              else Inr (AbstractGriddedPlane (redshift first) gals grids bord
                          compute_deflections cosmo)))"

definition PlaneSlice ::
  "galaxy list \<Rightarrow> grid stack \<Rightarrow> real option \<Rightarrow> nat list option \<Rightarrow> bool \<Rightarrow> cosmology \<Rightarrow>
   error + gridded_plane" where
  "PlaneSlice gals grids z bord compute_deflections cosmo =
     Inr (AbstractGriddedPlane z gals grids bord compute_deflections cosmo)"

section \<open>fit_point_source.py: FitPositionsImage and FitFluxes\<close>

text \<open>
  The tracer of this module holds its planes, each a list of galaxies. Its numerical
  methods and the position solver are external collaborators: they are function-valued
  fields here. \<open>magnification_via_hessian_from_grid\<close> takes the positions and the upper
  plane index of the deflections (\<open>None\<close>: all planes); \<open>solve\<close> takes the source-plane
  coordinate and the upper plane index; \<open>grid_of_closest_from_grid_pair\<close> pairs the
  model positions with the observed ones.
\<close>

record fit_tracer =
  tracer_planes :: "galaxy list list"
  magnification_via_hessian_from_grid :: "grid \<Rightarrow> nat option \<Rightarrow> real list"

record positions_solver =
  solve :: "fit_tracer \<Rightarrow> coord \<Rightarrow> nat option \<Rightarrow> grid"
  grid_of_closest_from_grid_pair :: "grid \<Rightarrow> grid \<Rightarrow> grid"

text \<open>
  Modelled from the spec: \<open>Tracer.extract_profile\<close> and
  \<open>Tracer.extract_plane_index_of_profile\<close> are not among the sources. The first
  returns the profile of the given name of the first galaxy, in plane order, that has
  one, and \<open>None\<close> when no plane has it; the second the index of that plane.
\<close>

definition extract_profile :: "fit_tracer \<Rightarrow> string \<Rightarrow> point_source option" where
  "extract_profile t profile_name =
     map_of (concat (map profiles (concat (tracer_planes t)))) profile_name"

definition plane_has_profile :: "string \<Rightarrow> galaxy list \<Rightarrow> bool" where
  "plane_has_profile profile_name gals =
     list_ex (\<lambda>g. map_of (profiles g) profile_name \<noteq> None) gals"

definition extract_plane_index_of_profile :: "fit_tracer \<Rightarrow> string \<Rightarrow> nat" where
  "extract_plane_index_of_profile t profile_name =
     length (takeWhile (\<lambda>gals. \<not> plane_has_profile profile_name gals) (tracer_planes t))"

definition no_profile_message :: "string \<Rightarrow> string" where
  "no_profile_message name =
     ''For the point-source named '' @ name @
     '' there was no matching point source profile '' @
     ''in the tracer (make sure your tracer'' @ [CHR 0x27] @
     ''s point source name is the same the dataset name.''"

definition no_flux_message :: "string \<Rightarrow> string \<Rightarrow> string" where
  "no_flux_message name cls =
     ''For the point-source named '' @ name @ '' the extracted point source was the '' @
     ''class '' @ cls @ '' and therefore does '' @
     ''not contain a flux component.''"

record fit_positions_image =
  fpi_name :: string
  fpi_point_source_profile :: point_source
  source_plane_coordinate :: coord
  fpi_data :: grid
  fpi_noise_map :: "real list"
  fpi_model_data :: grid

definition FitPositionsImage ::
  "string \<Rightarrow> grid \<Rightarrow> real list \<Rightarrow> fit_tracer \<Rightarrow> positions_solver \<Rightarrow>
   error + fit_positions_image" where
  "FitPositionsImage name positions noise t solver =
     (case extract_profile t name of
        None \<Rightarrow> Inl (PointSourceExtractionException (no_profile_message name))
      | Some profile \<Rightarrow>
          (let upper_plane_index =
                 (if 2 < length (tracer_planes t)
                  then Some (extract_plane_index_of_profile t name) else None);
               model_positions = solve solver t (centre profile) upper_plane_index;
               model_positions =
                 grid_of_closest_from_grid_pair solver model_positions positions
           in Inr \<lparr>fpi_name = name, fpi_point_source_profile = profile,
                   source_plane_coordinate = centre profile,
                   fpi_data = positions, fpi_noise_map = noise,
                   fpi_model_data = model_positions\<rparr>))"

record fit_fluxes =
  ff_name :: string
  ff_positions :: grid
  ff_point_source_profile :: point_source
  magnifications :: "real list"
  ff_data :: "real list"
  ff_noise_map :: "real list"
  ff_model_data :: "real list"

text \<open>\<open>hasattr(profile, "flux")\<close> is false when the profile has no flux: the field is
  \<open>None\<close>.\<close>

definition FitFluxes ::
  "string \<Rightarrow> real list \<Rightarrow> real list \<Rightarrow> grid \<Rightarrow> fit_tracer \<Rightarrow> error + fit_fluxes" where
  "FitFluxes name fluxes noise positions t =
     (case extract_profile t name of
        None \<Rightarrow> Inl (PointSourceExtractionException (no_profile_message name))
      | Some profile \<Rightarrow>
     (case flux profile of
        None \<Rightarrow> Inl (PointSourceExtractionException
                      (no_flux_message name (class_name profile)))
      | Some f \<Rightarrow>
          (let upper_plane_index =
                 (if 2 < length (tracer_planes t)
                  then Some (extract_plane_index_of_profile t name) else None);
               mags = map abs (magnification_via_hessian_from_grid t positions
                                 upper_plane_index)
           in Inr \<lparr>ff_name = name, ff_positions = positions,
                   ff_point_source_profile = profile, magnifications = mags,
                   ff_data = fluxes, ff_noise_map = noise,
                   ff_model_data = map (\<lambda>magnification. magnification * f) mags\<rparr>)))"

section \<open>Auxiliary predicates and concrete inputs\<close>

definition out_of_range :: "'a list \<Rightarrow> int \<Rightarrow> bool" where
  "out_of_range xs i = (i < - int (length xs) \<or> int (length xs) \<le> i)"

fun raises_GeometryException :: "error + 'a \<Rightarrow> bool" where
  "raises_GeometryException (Inl (GeometryException msg)) = True"
| "raises_GeometryException r = False"

definition plane_without_redshift :: abstract_plane where
  "plane_without_redshift =
     \<lparr>plane_redshift = None, plane_galaxies = [], plane_cosmology = toy_cosmology\<rparr>"

definition plane_at_redshift_1 :: abstract_plane where
  "plane_at_redshift_1 =
     \<lparr>plane_redshift = Some 1, plane_galaxies = [], plane_cosmology = toy_cosmology\<rparr>"

text \<open>A deflection field fits a grid when it is a scalar or an array of the grid's
  length.\<close>

fun same_shape :: "grid \<Rightarrow> coord ndarray \<Rightarrow> bool" where
  "same_shape g (Scalar c) = True"
| "same_shape g (Array ds) = (length ds = length g)"

text \<open>\<open>grid_minus_deflections coords d g'\<close>: the bundle \<open>g'\<close> has the shape of
  \<open>coords\<close>, and each of its coordinates is the coordinate of \<open>coords\<close> minus the
  deflection vector of \<open>d\<close> at the same place.\<close>

definition grid_minus_deflections ::
  "grid stack \<Rightarrow> coord ndarray stack \<Rightarrow> grid stack \<Rightarrow> bool" where
  "grid_minus_deflections coords d g' \<longleftrightarrow>
     length g' = length coords \<and>
     (\<forall>v < length coords. length (g' ! v) = length (coords ! v) \<and>
        (\<forall>i < length (coords ! v).
           g' ! v ! i = vsub (coords ! v ! i) (deflection_at (d ! v) i)))"

definition lens_galaxy :: galaxy where
  "lens_galaxy =
     \<lparr>redshift = Some (1/2),
      light_profiles = [\<lambda>c. fst c + snd c],
      mass_profiles = [\<lambda>c. (fst c / 2, snd c / 2)],
      einstein_radius = Some 1,
      has_pixelization = False, has_regularization = False,
      profiles = []\<rparr>"

definition source_galaxy :: galaxy where
  "source_galaxy =
     \<lparr>redshift = Some 1,
      light_profiles = [\<lambda>c. 1],
      mass_profiles = [],
      einstein_radius = None,
      has_pixelization = False, has_regularization = False,
      profiles = [(''point_0'',
        \<lparr>centre = (0, 0), flux = Some 2, class_name = ''PointSourceFlux''\<rparr>)]\<rparr>"

definition dark_galaxy :: galaxy where
  "dark_galaxy =
     \<lparr>redshift = Some 1,
      light_profiles = [],
      mass_profiles = [],
      einstein_radius = None,
      has_pixelization = False, has_regularization = False,
      profiles = [(''point_1'',
        \<lparr>centre = (0, 0), flux = None, class_name = ''PointSource''\<rparr>)]\<rparr>"

definition toy_tracer :: fit_tracer where
  "toy_tracer =
     \<lparr>tracer_planes = [[lens_galaxy], [source_galaxy, dark_galaxy]],
      magnification_via_hessian_from_grid = (\<lambda>positions upper. map (\<lambda>c. - 3) positions)\<rparr>"

definition toy_solver :: positions_solver where
  "toy_solver =
     \<lparr>solve = (\<lambda>t c upper. [c]),
      grid_of_closest_from_grid_pair = (\<lambda>model observed. model)\<rparr>"

text \<open>The sum of a list of vectors.\<close>

definition vsum :: "coord list \<Rightarrow> coord" where
  "vsum xs = foldr vadd xs (0, 0)"

text \<open>The scaling factor and the deflection field that the inner loop of
  \<open>MultiTracer.__init__\<close> reads for the previous plane \<open>p\<close>, when both exist.\<close>

definition applied_factor :: "tracer_geometry \<Rightarrow> nat \<Rightarrow> nat \<Rightarrow> real" where
  "applied_factor geo k p =
     (case scaling_factor geo (int p) (int k) of Inr s \<Rightarrow> s | Inl e \<Rightarrow> 0)"

definition plane_deflections :: "rt_plane list \<Rightarrow> nat \<Rightarrow> coord ndarray stack" where
  "plane_deflections ps p = (case deflections (ps ! p) of Some d \<Rightarrow> d | None \<Rightarrow> [])"

text \<open>A bundle of deflection fields fits a bundle of grids when it has as many
  variants and every field fits its grid.\<close>

definition fits :: "grid stack \<Rightarrow> coord ndarray stack \<Rightarrow> bool" where
  "fits g d \<longleftrightarrow> length d = length g \<and> (\<forall>v < length g. same_shape (g ! v) (d ! v))"

text \<open>\<open>built_plane geo n pgs grids all k\<close>: entry \<open>k\<close> of the plane list \<open>all\<close> is
  the plane that iteration \<open>k\<close> of the loop over \<open>plane_index\<close> builds.\<close>

definition built_plane ::
  "tracer_geometry \<Rightarrow> nat \<Rightarrow> galaxy list list \<Rightarrow> grid stack \<Rightarrow> rt_plane list \<Rightarrow> nat \<Rightarrow> bool"
where
  "built_plane geo n pgs grids all k \<longleftrightarrow>
     (\<exists>ng gals.
        (if 0 < k then new_grid_loop geo all k grids [0..<k] else Inr grids) = Inr ng
        \<and> py_index pgs (int k) = Inr gals
        \<and> all ! k = rt_Plane gals ng (int k < int n - 1))"

text \<open>A system of three planes in the toy cosmology.\<close>

definition second_lens_galaxy :: galaxy where
  "second_lens_galaxy =
     \<lparr>redshift = Some 1,
      light_profiles = [],
      mass_profiles = [\<lambda>c. (1, 1)],
      einstein_radius = Some 1,
      has_pixelization = False, has_regularization = False,
      profiles = []\<rparr>"

definition far_galaxy :: galaxy where
  "far_galaxy =
     \<lparr>redshift = Some 2,
      light_profiles = [\<lambda>c. 1],
      mass_profiles = [],
      einstein_radius = None,
      has_pixelization = False, has_regularization = False,
      profiles = []\<rparr>"

definition toy_geometry_3 :: tracer_geometry where
  "toy_geometry_3 =
     \<lparr>geo_cosmology = toy_cosmology, redshifts = [Some (1/2), Some 1, Some 2],
      final_plane = 2, ang_to_final_plane = 2/3\<rparr>"

definition toy_multi_tracer :: multi_tracer where
  "toy_multi_tracer =
     \<lparr>galaxies_redshift_order = [lens_galaxy, second_lens_galaxy, source_galaxy, far_galaxy],
      planes_redshift_order = [Some (1/2), Some 1, Some 2],
      mt_geometry = toy_geometry_3,
      planes_galaxies = [[lens_galaxy], [second_lens_galaxy, source_galaxy], [far_galaxy]],
      planes = [rt_Plane [lens_galaxy] [[(2, 4)]] True,
                rt_Plane [second_lens_galaxy, source_galaxy] [[(4/3, 8/3)]] True,
                rt_Plane [far_galaxy] [[(0, 1)]] False]\<rparr>"

definition toy_two_plane_tracer :: tracer where
  "toy_two_plane_tracer =
     \<lparr>geometry = None,
      image_plane = rt_Plane [lens_galaxy] [[(2, 4)]] True,
      source_plane = rt_Plane [source_galaxy] [[(1, 2)]] False\<rparr>"

text \<open>Of any two redshifts of the list, both are numbers and the earlier one is the
  smaller.\<close>

definition increasing_redshifts :: "real option list \<Rightarrow> bool" where
  "increasing_redshifts zs =
     sorted_wrt (\<lambda>a b. case (a, b) of (Some x, Some y) \<Rightarrow> x < y | _ \<Rightarrow> False) zs"

section \<open>Properties of the geometry\<close>

lemma py_index_out_of_range: "out_of_range xs i \<Longrightarrow> py_index xs i = Inl IndexError"
  by (auto simp: py_index_def out_of_range_def Let_def)

lemma py_index_in_range:
  "0 \<le> i \<Longrightarrow> i < int (length xs) \<Longrightarrow> py_index xs i = Inr (xs ! nat i)"
  by (simp add: py_index_def Let_def)

lemma py_index_cases:
  "py_index xs i = Inl IndexError \<or> (\<exists>x \<in> set xs. py_index xs i = Inr x)"
  by (auto simp: py_index_def Let_def)

lemma TracerGeometry_empty: "TracerGeometry [] cosmo = Inl IndexError"
  by (simp add: TracerGeometry_def ang_to_earth_of_def py_index_def)

lemma ang_to_earth_out:
  "out_of_range (redshifts geo) i \<Longrightarrow> ang_to_earth geo i = Inl IndexError"
  by (simp add: ang_to_earth_def ang_to_earth_of_def py_index_out_of_range)

lemma ang_between_planes_out:
  "out_of_range (redshifts geo) i \<or> out_of_range (redshifts geo) j \<Longrightarrow>
   ang_between_planes geo i j = Inl IndexError"
  by (auto simp: ang_between_planes_def py_index_out_of_range split: sum.splits)
     (auto simp: py_index_def Let_def split: if_splits)

lemma scaling_factor_out:
  "out_of_range (redshifts geo) i \<or> out_of_range (redshifts geo) j \<Longrightarrow>
   scaling_factor geo i j = Inl IndexError"
  by (simp add: scaling_factor_def ang_between_planes_out)

lemma ang_to_earth_result:
  "None \<notin> set (redshifts geo) \<Longrightarrow>
   ang_to_earth geo i = Inl IndexError \<or> (\<exists>d. ang_to_earth geo i = Inr d)"
  using py_index_cases [of "redshifts geo" i]
  by (auto simp: ang_to_earth_def ang_to_earth_of_def need_redshift_def split: option.splits)

lemma critical_density_kpc_out:
  assumes "out_of_range (redshifts geo) i \<or> out_of_range (redshifts geo) j"
    and "None \<notin> set (redshifts geo)"
  shows "critical_density_kpc k geo i j = Inl IndexError"
  using assms ang_to_earth_result [OF assms(2), of j] ang_between_planes_out [OF assms(1)]
  by (auto simp: critical_density_kpc_def)

text \<open>
  C3, as the claim states it, fails: a scaling factor requested with plane index 2 of a
  two-plane geometry raises Python's \<open>IndexError\<close>, not a \<open>GeometryException\<close>, and so
  does the construction of a geometry from an empty redshift list.
\<close>

theorem geometry_errors_are_not_GeometryException:
  "TracerGeometry [Some (1/2), Some 1] toy_cosmology = Inr toy_geometry
   \<and> scaling_factor toy_geometry 0 2 = Inl IndexError
   \<and> \<not> raises_GeometryException (scaling_factor toy_geometry 0 2)
   \<and> \<not> raises_GeometryException (ang_to_earth toy_geometry 2)
   \<and> \<not> raises_GeometryException (TracerGeometry [] toy_cosmology)"
  by (simp add: TracerGeometry_def toy_geometry_def toy_cosmology_def ang_to_earth_of_def
      ang_to_earth_def py_index_def need_redshift_def scaling_factor_def
      ang_between_planes_def)

text \<open>
  C3, amended: a plane index outside \<open>-len .. len - 1\<close> of the redshift list makes
  the distance to the observer, the distance between planes and the scaling factor fail
  with \<open>IndexError\<close>; so do the critical surface densities when every redshift of the
  list is a number (with a missing redshift they may fail with \<open>TypeError\<close> first);
  and the construction of a geometry from an empty redshift list fails with
  \<open>IndexError\<close>.
\<close>

theorem geometry_index_errors:
  "(out_of_range (redshifts geo) i \<longrightarrow> ang_to_earth geo i = Inl IndexError)
 \<and> (out_of_range (redshifts geo) i \<or> out_of_range (redshifts geo) j \<longrightarrow>
      ang_between_planes geo i j = Inl IndexError \<and> scaling_factor geo i j = Inl IndexError)
 \<and> ((out_of_range (redshifts geo) i \<or> out_of_range (redshifts geo) j) \<and>
     None \<notin> set (redshifts geo) \<longrightarrow>
      critical_density_kpc k geo i j = Inl IndexError
      \<and> critical_density_arcsec k geo i j = Inl IndexError)
 \<and> TracerGeometry [] cosmo = Inl IndexError"
  using ang_to_earth_out [of geo i] ang_between_planes_out [of geo i j]
    scaling_factor_out [of geo i j] critical_density_kpc_out [of geo i j k]
    TracerGeometry_empty [of cosmo]
  by (simp add: critical_density_arcsec_def)

theorem geometry_index_errors_witness:
  "out_of_range (redshifts toy_geometry) 2
   \<and> None \<notin> set (redshifts toy_geometry)
   \<and> ang_to_earth toy_geometry 2 = Inl IndexError
   \<and> ang_between_planes toy_geometry 2 0 = Inl IndexError
   \<and> scaling_factor toy_geometry 2 0 = Inl IndexError
   \<and> critical_density_kpc toy_constants toy_geometry 2 0 = Inl IndexError
   \<and> critical_density_arcsec toy_constants toy_geometry 2 0 = Inl IndexError
   \<and> TracerGeometry [] toy_cosmology = Inl IndexError"
proof -
  have r: "out_of_range (redshifts toy_geometry) 2"
    by (simp add: out_of_range_def toy_geometry_def)
  have n: "None \<notin> set (redshifts toy_geometry)"
    by (simp add: toy_geometry_def)
  show ?thesis
    using r n geometry_index_errors [of toy_geometry 2 0 toy_constants toy_cosmology]
    by simp
qed

text \<open>
  C4: in a geometry of two planes whose distances are not zero, the scaling factor
  between plane 0 and plane 1 is exactly 1.
\<close>

theorem scaling_factor_two_planes:
  assumes "TracerGeometry [Some z0, Some z1] cosmo = Inr geo"
    and "angular_diameter_distance cosmo z1 \<noteq> 0"
    and "angular_diameter_distance_z1z2 cosmo z0 z1 \<noteq> 0"
  shows "scaling_factor geo 0 1 = Inr 1"
  using assms
  by (auto simp: TracerGeometry_def ang_to_earth_of_def py_index_def Let_def need_redshift_def
       scaling_factor_def ang_between_planes_def ang_to_earth_def split: sum.splits)

theorem scaling_factor_two_planes_witness:
  "TracerGeometry [Some (1/2), Some 1] toy_cosmology = Inr toy_geometry
   \<and> angular_diameter_distance toy_cosmology 1 \<noteq> 0
   \<and> angular_diameter_distance_z1z2 toy_cosmology (1/2) 1 \<noteq> 0
   \<and> scaling_factor toy_geometry 0 1 = Inr 1"
proof -
  have g: "TracerGeometry [Some (1/2), Some 1] toy_cosmology = Inr toy_geometry"
    by (simp add: TracerGeometry_def toy_geometry_def toy_cosmology_def ang_to_earth_of_def
        py_index_def need_redshift_def)
  have d1: "angular_diameter_distance toy_cosmology 1 \<noteq> 0"
    by (simp add: toy_cosmology_def)
  have d2: "angular_diameter_distance_z1z2 toy_cosmology (1/2) 1 \<noteq> 0"
    by (simp add: toy_cosmology_def)
  show ?thesis
    using g d1 d2 scaling_factor_two_planes [OF g d1 d2] by simp
qed

section \<open>Properties of the planes of plane.py\<close>

text \<open>
  C2: a \<open>Plane\<close> built from an empty galaxy list fails with a
  \<open>RayTracingException\<close>, whatever the grids and the other arguments; it never
  returns a plane.
\<close>

theorem Plane_rejects_empty_galaxies:
  "Plane [] grids bord compute_deflections cosmo =
     Inl (RayTracingException ''An empty list of galaxies was supplied to Plane'')
   \<and> (\<forall>p. Plane [] grids bord compute_deflections cosmo \<noteq> Inr p)"
  by (simp add: Plane_def)

theorem Plane_rejects_empty_galaxies_witness:
  "Plane [] [[(1, 1), (2, 3)]] None True toy_cosmology =
     Inl (RayTracingException ''An empty list of galaxies was supplied to Plane'')"
  using Plane_rejects_empty_galaxies [of "[[(1, 1), (2, 3)]]" None True toy_cosmology]
  by simp

text \<open>
  C10: a \<open>PlaneSlice\<close> built from an empty galaxy list with deflections computed
  succeeds, and its deflection field is the zero vector at every coordinate of every
  grid variant; the \<open>Plane\<close> constructor rejects the same arguments.
\<close>

theorem PlaneSlice_empty_galaxies_zero_field:
  "PlaneSlice [] grids z bord True cosmo =
     Inr (AbstractGriddedPlane z [] grids bord True cosmo)
   \<and> deflection_stack (AbstractGriddedPlane z [] grids bord True cosmo) =
       Some (map (\<lambda>g. Array (replicate (length g) (0, 0))) grids)
   \<and> Plane [] grids bord True cosmo =
       Inl (RayTracingException ''An empty list of galaxies was supplied to Plane'')"
  by (simp add: PlaneSlice_def AbstractGriddedPlane_def apply_function_def
      calculate_deflections_def Plane_def)

theorem PlaneSlice_empty_galaxies_zero_field_witness:
  "deflection_stack (AbstractGriddedPlane (Some 1) [] [[(1, 1), (2, 3)], [(4, 5)]] None True
       toy_cosmology) =
     Some [Array [(0, 0), (0, 0)], Array [(0, 0)]]"
  using PlaneSlice_empty_galaxies_zero_field
    [of "[[(1, 1), (2, 3)], [(4, 5)]]" "Some 1" None toy_cosmology]
  by (simp add: numeral_2_eq_2)

lemma check_plane_for_redshift_None:
  "plane_redshift self = None \<Longrightarrow> check_plane_for_redshift f self = Inr None"
  by (simp add: check_plane_for_redshift_def)

lemma check_plane_for_redshift_Some:
  "plane_redshift self = Some z \<Longrightarrow> check_plane_for_redshift f self = f self"
  by (simp add: check_plane_for_redshift_def)

lemma plane_arcsec_per_kpc_proper_Some:
  "plane_redshift self = Some z \<Longrightarrow>
   plane_arcsec_per_kpc_proper self =
     Inr (Some (arcsec_per_kpc_proper (plane_cosmology self) z))"
  by (simp add: plane_arcsec_per_kpc_proper_def check_plane_for_redshift_Some
      arcsec_per_kpc_proper_body_def need_redshift_def)

lemma plane_kpc_per_arcsec_proper_Some:
  "plane_redshift self = Some z \<Longrightarrow>
   plane_kpc_per_arcsec_proper self =
     Inr (Some (1 / arcsec_per_kpc_proper (plane_cosmology self) z))"
  by (simp add: plane_kpc_per_arcsec_proper_def check_plane_for_redshift_Some
      kpc_per_arcsec_proper_body_def plane_arcsec_per_kpc_proper_Some)

text \<open>
  C7: on a plane without a redshift, the arcsec-per-kpc and kpc-per-arcsec conversions,
  the angular diameter distance to the observer, the cosmic average mass density and
  the Einstein radius in kpc all return \<open>None\<close> (no number, no exception); on a plane
  with a redshift each returns what the body of the property computes.
\<close>

theorem no_redshift_gives_None:
  "(plane_redshift self = None \<longrightarrow>
      plane_arcsec_per_kpc_proper self = Inr None
    \<and> plane_kpc_per_arcsec_proper self = Inr None
    \<and> angular_diameter_distance_to_earth self = Inr None
    \<and> cosmic_average_mass_density_arcsec self = Inr None
    \<and> einstein_radius_kpc self = Inr None)
 \<and> (\<forall>z. plane_redshift self = Some z \<longrightarrow>
      arcsec_per_kpc_proper_body self = plane_arcsec_per_kpc_proper self
    \<and> plane_arcsec_per_kpc_proper self =
        Inr (Some (arcsec_per_kpc_proper (plane_cosmology self) z))
    \<and> kpc_per_arcsec_proper_body self = plane_kpc_per_arcsec_proper self
    \<and> plane_kpc_per_arcsec_proper self =
        Inr (Some (1 / arcsec_per_kpc_proper (plane_cosmology self) z))
    \<and> angular_diameter_distance_to_earth_body self = angular_diameter_distance_to_earth self
    \<and> angular_diameter_distance_to_earth self =
        Inr (Some (angular_diameter_distance (plane_cosmology self) z))
    \<and> cosmic_average_mass_density_arcsec_body self = cosmic_average_mass_density_arcsec self
    \<and> cosmic_average_mass_density_arcsec self =
        Inr (Some (critical_density (plane_cosmology self) z /
                   arcsec_per_kpc_proper (plane_cosmology self) z ^ 3))
    \<and> einstein_radius_kpc_body self = einstein_radius_kpc self
    \<and> einstein_radius_kpc self =
        (case einstein_radius_arcsec self of None \<Rightarrow> Inr None
         | Some r \<Rightarrow> Inr (Some (1 / arcsec_per_kpc_proper (plane_cosmology self) z * r))))"
proof (intro conjI impI allI)
  fix z assume z: "plane_redshift self = Some z"
  show "einstein_radius_kpc self =
        (case einstein_radius_arcsec self of None \<Rightarrow> Inr None
         | Some r \<Rightarrow> Inr (Some (1 / arcsec_per_kpc_proper (plane_cosmology self) z * r)))"
    by (simp add: einstein_radius_kpc_def check_plane_for_redshift_Some [OF z]
        einstein_radius_kpc_body_def plane_kpc_per_arcsec_proper_Some [OF z]
        einstein_radius_arcsec_def)
  show "cosmic_average_mass_density_arcsec self =
        Inr (Some (critical_density (plane_cosmology self) z /
                   arcsec_per_kpc_proper (plane_cosmology self) z ^ 3))"
    by (simp add: cosmic_average_mass_density_arcsec_def check_plane_for_redshift_Some [OF z]
        cosmic_average_mass_density_arcsec_body_def plane_arcsec_per_kpc_proper_Some [OF z]
        need_redshift_def z)
  show "angular_diameter_distance_to_earth self =
        Inr (Some (angular_diameter_distance (plane_cosmology self) z))"
    by (simp add: angular_diameter_distance_to_earth_def check_plane_for_redshift_Some [OF z]
        angular_diameter_distance_to_earth_body_def need_redshift_def z)
  show "plane_arcsec_per_kpc_proper self =
        Inr (Some (arcsec_per_kpc_proper (plane_cosmology self) z))"
    by (rule plane_arcsec_per_kpc_proper_Some [OF z])
  show "plane_kpc_per_arcsec_proper self =
        Inr (Some (1 / arcsec_per_kpc_proper (plane_cosmology self) z))"
    by (rule plane_kpc_per_arcsec_proper_Some [OF z])
qed (simp_all add: check_plane_for_redshift_None check_plane_for_redshift_Some
      plane_arcsec_per_kpc_proper_def plane_kpc_per_arcsec_proper_def
      angular_diameter_distance_to_earth_def cosmic_average_mass_density_arcsec_def
      einstein_radius_kpc_def)

theorem no_redshift_gives_None_witness:
  "plane_redshift plane_without_redshift = None
   \<and> plane_arcsec_per_kpc_proper plane_without_redshift = Inr None
   \<and> plane_kpc_per_arcsec_proper plane_without_redshift = Inr None
   \<and> angular_diameter_distance_to_earth plane_without_redshift = Inr None
   \<and> cosmic_average_mass_density_arcsec plane_without_redshift = Inr None
   \<and> einstein_radius_kpc plane_without_redshift = Inr None
   \<and> plane_redshift plane_at_redshift_1 = Some 1
   \<and> plane_arcsec_per_kpc_proper plane_at_redshift_1 = Inr (Some 2)
   \<and> plane_kpc_per_arcsec_proper plane_at_redshift_1 = Inr (Some (1/2))
   \<and> angular_diameter_distance_to_earth plane_at_redshift_1 = Inr (Some (1/2))
   \<and> cosmic_average_mass_density_arcsec plane_at_redshift_1 = Inr (Some (1/8))"
proof -
  have n: "plane_redshift plane_without_redshift = None"
    by (simp add: plane_without_redshift_def)
  have s: "plane_redshift plane_at_redshift_1 = Some 1"
    by (simp add: plane_at_redshift_1_def)
  have c: "plane_cosmology plane_at_redshift_1 = toy_cosmology"
    by (simp add: plane_at_redshift_1_def)
  show ?thesis
    using n s no_redshift_gives_None [of plane_without_redshift]
      no_redshift_gives_None [of plane_at_redshift_1]
    by (simp add: c toy_cosmology_def)
qed

section \<open>Superposition of light\<close>

lemma map2_same_list: "map2 h (map f xs) (map g xs) = map (\<lambda>x. h (f x) (g x)) xs"
  by (induction xs) simp_all

lemma foldl_np_add_intensities:
  "foldl np_add (Array (map f coords)) (map (\<lambda>g. intensity_from_grid g coords) gs) =
   Array (map (\<lambda>c. f c + (\<Sum>g\<leftarrow>gs. intensity_at g c)) coords)"
proof (induction gs arbitrary: f)
  case Nil
  show ?case by simp
next
  case (Cons g gs)
  have "np_add (Array (map f coords)) (intensity_from_grid g coords) =
        Array (map (\<lambda>c. f c + intensity_at g c) coords)"
    by (simp add: intensity_from_grid_def map2_same_list)
  then show ?case
    using Cons.IH [of "\<lambda>c. f c + intensity_at g c"] by (simp add: add.assoc)
qed

lemma intensities_via_grid_Nil: "intensities_via_grid coords [] = Scalar 0"
  by (simp add: intensities_via_grid_def py_sum_def)

lemma intensities_via_grid_Cons:
  "intensities_via_grid coords (g # gs) =
   Array (map (\<lambda>c. \<Sum>h\<leftarrow>g # gs. intensity_at h c) coords)"
proof -
  have "np_add (Scalar 0) (intensity_from_grid g coords) = Array (map (intensity_at g) coords)"
    by (simp add: intensity_from_grid_def)
  then show ?thesis
    using foldl_np_add_intensities [of "intensity_at g" coords gs]
    by (simp add: intensities_via_grid_def py_sum_def)
qed

lemma intensities_via_grid_nonempty:
  "gs \<noteq> [] \<Longrightarrow> intensities_via_grid coords gs =
   Array (map (\<lambda>c. \<Sum>h\<leftarrow>gs. intensity_at h c) coords)"
  by (cases gs) (simp_all only: intensities_via_grid_Cons list.simps)

text \<open>
  C9: the light of the galaxy list \<open>as @ bs\<close> on a grid is the numpy sum of the light
  of \<open>as\<close> and the light of \<open>bs\<close> on that grid, in exact arithmetic; a galaxy without
  a light profile contributes zero at every coordinate.
\<close>

theorem intensities_superposition:
  "intensities_via_grid coords (as @ bs) =
     np_add (intensities_via_grid coords as) (intensities_via_grid coords bs)
   \<and> (light_profiles g = [] \<longrightarrow>
        intensity_from_grid g coords = Array (replicate (length coords) 0))"
proof
  show "intensities_via_grid coords (as @ bs) =
     np_add (intensities_via_grid coords as) (intensities_via_grid coords bs)"
  proof (cases "as = []")
    case True
    then show ?thesis
      by (cases "bs = []")
         (simp_all add: intensities_via_grid_Nil intensities_via_grid_nonempty)
  next
    case False
    then show ?thesis
      by (cases "bs = []")
         (simp_all add: intensities_via_grid_Nil intensities_via_grid_nonempty map2_same_list)
  qed
  show "light_profiles g = [] \<longrightarrow>
        intensity_from_grid g coords = Array (replicate (length coords) 0)"
    by (simp add: intensity_from_grid_def intensity_at_def [abs_def] map_replicate_const)
qed

theorem intensities_superposition_witness:
  "intensities_via_grid [(1, 2), (3, 4)] ([lens_galaxy] @ [source_galaxy, dark_galaxy]) =
     Array [4, 8]
   \<and> light_profiles dark_galaxy = []
   \<and> intensity_from_grid dark_galaxy [(1, 2), (3, 4)] = Array [0, 0]"
proof -
  have d: "light_profiles dark_galaxy = []"
    by (simp add: dark_galaxy_def)
  have a: "intensities_via_grid [(1, 2), (3, 4)] [lens_galaxy] = Array [3, 7]"
    by (simp add: intensities_via_grid_def py_sum_def intensity_from_grid_def
        intensity_at_def lens_galaxy_def)
  have b: "intensities_via_grid [(1, 2), (3, 4)] [source_galaxy, dark_galaxy] = Array [1, 1]"
    by (simp add: intensities_via_grid_def py_sum_def intensity_from_grid_def
        intensity_at_def source_galaxy_def dark_galaxy_def)
  show ?thesis
    using d intensities_superposition [of "[(1, 2), (3, 4)]" "[lens_galaxy]" "[source_galaxy, dark_galaxy]"
        dark_galaxy]
    by (simp add: a b numeral_2_eq_2)
qed

section \<open>Point-source fits\<close>

lemma messages_differ: "no_flux_message name cls \<noteq> no_profile_message name"
  by (simp add: no_flux_message_def no_profile_message_def)

lemma name_in_no_profile_message: "sublist name (no_profile_message name)"
  unfolding no_profile_message_def sublist_def by blast

lemma name_in_no_flux_message: "sublist name (no_flux_message name cls)"
  unfolding no_flux_message_def sublist_def by blast

lemma extract_profile_None_iff:
  "extract_profile t name = None \<longleftrightarrow>
   (\<forall>gals \<in> set (tracer_planes t). \<forall>g \<in> set gals. name \<notin> fst ` set (profiles g))"
  by (auto simp: extract_profile_def map_of_eq_None_iff)


text \<open>
  C8: \<open>FitFluxes\<close> and \<open>FitPositionsImage\<close> fail with the
  \<open>PointSourceExtractionException\<close> whose message names the point source exactly when
  no galaxy of any plane of the tracer has a profile of that name; when the profile
  exists without a flux, \<open>FitFluxes\<close> fails with the same exception and a different
  message; in every other case the construction returns a fit.
\<close>

theorem point_source_extraction_errors:
  "(FitFluxes name fluxes noise positions t =
      Inl (PointSourceExtractionException (no_profile_message name))
    \<longleftrightarrow> extract_profile t name = None)
 \<and> (FitPositionsImage name positions noise t solver =
      Inl (PointSourceExtractionException (no_profile_message name))
    \<longleftrightarrow> extract_profile t name = None)
 \<and> (extract_profile t name = None \<longleftrightarrow>
      (\<forall>gals \<in> set (tracer_planes t). \<forall>g \<in> set gals. name \<notin> fst ` set (profiles g)))
 \<and> sublist name (no_profile_message name)
 \<and> (\<forall>p. extract_profile t name = Some p \<and> flux p = None \<longrightarrow>
      FitFluxes name fluxes noise positions t =
        Inl (PointSourceExtractionException (no_flux_message name (class_name p)))
      \<and> no_flux_message name (class_name p) \<noteq> no_profile_message name)
 \<and> (\<forall>p f. extract_profile t name = Some p \<and> flux p = Some f \<longrightarrow>
      (\<exists>fit. FitFluxes name fluxes noise positions t = Inr fit
         \<and> ff_point_source_profile fit = p
         \<and> ff_model_data fit = map (\<lambda>m. m * f) (magnifications fit)))
 \<and> (\<forall>p. extract_profile t name = Some p \<longrightarrow>
      (\<exists>fit. FitPositionsImage name positions noise t solver = Inr fit
         \<and> fpi_point_source_profile fit = p))"
proof (intro conjI)
  show "(FitFluxes name fluxes noise positions t =
      Inl (PointSourceExtractionException (no_profile_message name)))
    = (extract_profile t name = None)"
    by (auto simp: FitFluxes_def Let_def messages_differ split: option.splits)
  show "(FitPositionsImage name positions noise t solver =
      Inl (PointSourceExtractionException (no_profile_message name)))
    = (extract_profile t name = None)"
    by (auto simp: FitPositionsImage_def Let_def split: option.splits)
  show "(extract_profile t name = None) =
      (\<forall>gals \<in> set (tracer_planes t). \<forall>g \<in> set gals. name \<notin> fst ` set (profiles g))"
    by (rule extract_profile_None_iff)
  show "sublist name (no_profile_message name)"
    by (rule name_in_no_profile_message)
  show "\<forall>p. extract_profile t name = Some p \<and> flux p = None \<longrightarrow>
      FitFluxes name fluxes noise positions t =
        Inl (PointSourceExtractionException (no_flux_message name (class_name p)))
      \<and> no_flux_message name (class_name p) \<noteq> no_profile_message name"
    by (simp add: FitFluxes_def messages_differ)
  show "\<forall>p f. extract_profile t name = Some p \<and> flux p = Some f \<longrightarrow>
      (\<exists>fit. FitFluxes name fluxes noise positions t = Inr fit
         \<and> ff_point_source_profile fit = p
         \<and> ff_model_data fit = map (\<lambda>m. m * f) (magnifications fit))"
    by (simp add: FitFluxes_def Let_def)
  show "\<forall>p. extract_profile t name = Some p \<longrightarrow>
      (\<exists>fit. FitPositionsImage name positions noise t solver = Inr fit
         \<and> fpi_point_source_profile fit = p)"
    by (simp add: FitPositionsImage_def Let_def)
qed

lemma extract_profile_point_0: "extract_profile toy_tracer ''point_0'' =
   Some \<lparr>centre = (0, 0), flux = Some 2, class_name = ''PointSourceFlux''\<rparr>"
  by (simp add: extract_profile_def toy_tracer_def lens_galaxy_def source_galaxy_def
        dark_galaxy_def)
lemma extract_profile_point_1: "extract_profile toy_tracer ''point_1'' =
   Some \<lparr>centre = (0, 0), flux = None, class_name = ''PointSource''\<rparr>"
  by (simp add: extract_profile_def toy_tracer_def lens_galaxy_def source_galaxy_def
        dark_galaxy_def)
lemma extract_profile_point_9: "extract_profile toy_tracer ''point_9'' = None"
  by (simp add: extract_profile_def toy_tracer_def lens_galaxy_def source_galaxy_def
        dark_galaxy_def)

theorem point_source_extraction_errors_witness:
  "extract_profile toy_tracer ''point_9'' = None
   \<and> FitFluxes ''point_9'' [5] [1] [(1, 1)] toy_tracer =
       Inl (PointSourceExtractionException (no_profile_message ''point_9''))
   \<and> FitPositionsImage ''point_9'' [(1, 1)] [1] toy_tracer toy_solver =
       Inl (PointSourceExtractionException (no_profile_message ''point_9''))
   \<and> FitFluxes ''point_1'' [5] [1] [(1, 1)] toy_tracer =
       Inl (PointSourceExtractionException (no_flux_message ''point_1'' ''PointSource''))
   \<and> (\<exists>fit. FitFluxes ''point_0'' [5] [1] [(1, 1)] toy_tracer = Inr fit
         \<and> ff_model_data fit = map (\<lambda>m. m * 2) (magnifications fit))
   \<and> (\<exists>fit. FitPositionsImage ''point_1'' [(1, 1)] [1] toy_tracer toy_solver = Inr fit)"
proof -
  let ?p0 = "\<lparr>centre = (0, 0), flux = Some 2, class_name = ''PointSourceFlux''\<rparr>"
  let ?p1 = "\<lparr>centre = (0, 0), flux = None, class_name = ''PointSource''\<rparr>"
  note t9 = point_source_extraction_errors [of "''point_9''" "[5]" "[1]" "[(1, 1)]" toy_tracer toy_solver]
  note t1 = point_source_extraction_errors [of "''point_1''" "[5]" "[1]" "[(1, 1)]" toy_tracer toy_solver]
  note t0 = point_source_extraction_errors [of "''point_0''" "[5]" "[1]" "[(1, 1)]" toy_tracer toy_solver]
  have f1: "flux ?p1 = None" and f0: "flux ?p0 = Some 2" by simp_all
  have a: "FitFluxes ''point_9'' [5] [1] [(1, 1)] toy_tracer =
       Inl (PointSourceExtractionException (no_profile_message ''point_9''))"
    using t9 extract_profile_point_9 by blast
  have b: "FitPositionsImage ''point_9'' [(1, 1)] [1] toy_tracer toy_solver =
       Inl (PointSourceExtractionException (no_profile_message ''point_9''))"
    using t9 extract_profile_point_9 by blast
  have c: "FitFluxes ''point_1'' [5] [1] [(1, 1)] toy_tracer =
       Inl (PointSourceExtractionException (no_flux_message ''point_1'' (class_name ?p1)))"
    using t1 extract_profile_point_1 f1 by blast
  have d: "\<exists>fit. FitFluxes ''point_0'' [5] [1] [(1, 1)] toy_tracer = Inr fit
         \<and> ff_model_data fit = map (\<lambda>m. m * 2) (magnifications fit)"
    using t0 extract_profile_point_0 f0 by blast
  have e: "\<exists>fit. FitPositionsImage ''point_1'' [(1, 1)] [1] toy_tracer toy_solver = Inr fit"
    using t1 extract_profile_point_1 by blast
  show ?thesis
    using extract_profile_point_9 a b c d e by simp
qed

section \<open>Tracing a plane's grids\<close>

lemma foldl_np_add_vec_shape:
  "length xs = length coords \<Longrightarrow>
   \<exists>ds. foldl np_add_vec (Array xs) (map (\<lambda>g. deflections_from_grid g coords) gs) = Array ds
        \<and> length ds = length coords"
proof (induction gs arbitrary: xs)
  case Nil
  then show ?case by simp
next
  case (Cons g gs)
  have "np_add_vec (Array xs) (deflections_from_grid g coords) =
        Array (map2 vadd xs (map (deflection_of g) coords))"
    by (simp add: deflections_from_grid_def)
  moreover have "length (map2 vadd xs (map (deflection_of g) coords)) = length coords"
    using Cons.prems by simp
  ultimately show ?case
    using Cons.IH [of "map2 vadd xs (map (deflection_of g) coords)"] by simp
qed

lemma py_sum_vec_shape:
  "same_shape coords (py_sum_vec (map (\<lambda>g. deflections_from_grid g coords) gs))"
proof (cases gs)
  case Nil
  then show ?thesis by (simp add: py_sum_vec_def)
next
  case (Cons g rest)
  have "np_add_vec (Scalar 0) (deflections_from_grid g coords) =
        Array (map (\<lambda>y. vadd (0, 0) y) (map (deflection_of g) coords))"
    by (simp add: deflections_from_grid_def)
  then show ?thesis
    using foldl_np_add_vec_shape
      [of "map (\<lambda>y. vadd (0, 0) y) (map (deflection_of g) coords)" coords rest] Cons
    by (auto simp: py_sum_vec_def)
qed

lemma calculate_deflections_shape: "same_shape coords (calculate_deflections gs coords)"
  using py_sum_vec_shape [of coords gs] by (simp add: calculate_deflections_def)

lemma rt_calculate_deflections_shape: "same_shape coords (rt_calculate_deflections gs coords)"
  using py_sum_vec_shape [of coords gs] by (simp add: rt_calculate_deflections_def)

lemma np_subtract_length: "same_shape g d \<Longrightarrow> length (np_subtract g d) = length g"
  by (cases d) simp_all

lemma np_subtract_nth:
  "same_shape g d \<Longrightarrow> i < length g \<Longrightarrow>
   np_subtract g d ! i = vsub (g ! i) (deflection_at d i)"
  by (cases d) simp_all

lemma map_function_np_subtract:
  assumes "length d = length coords" and "\<forall>v < length coords. same_shape (coords ! v) (d ! v)"
  shows "grid_minus_deflections coords d (map_function np_subtract coords d)"
  using assms
  by (simp add: grid_minus_deflections_def map_function_def np_subtract_length np_subtract_nth)

text \<open>
  C6: a plane built with its deflections traces its grids to the bundle of the same
  shape in which every coordinate of every grid variant is the plane's coordinate minus
  the deflection vector at that coordinate. This holds for the \<open>Plane\<close> of
  ray_tracing.py and for the \<open>Plane\<close> and \<open>PlaneSlice\<close> of plane.py. The functions
  return a new bundle; the plane is an immutable value.
\<close>

theorem trace_subtracts_deflections:
  "(\<exists>d g'. deflections (rt_Plane gals coords True) = Some d
        \<and> trace_to_next_plane (rt_Plane gals coords True) = Inr g'
        \<and> grid_minus_deflections coords d g')
 \<and> (Plane gals coords bord True cosmo = Inr p \<or>
     PlaneSlice gals coords z bord True cosmo = Inr p \<longrightarrow>
      grid_stack p = coords \<and>
      (\<exists>d g'. deflection_stack p = Some d
        \<and> trace_grid_stack_to_next_plane p = Inr g'
        \<and> grid_minus_deflections coords d g'))"
proof (rule conjI)
  let ?d = "apply_function (rt_calculate_deflections gals) coords"
  have "grid_minus_deflections coords ?d (map_function np_subtract coords ?d)"
    by (rule map_function_np_subtract)
       (simp_all add: apply_function_def rt_calculate_deflections_shape)
  then show "\<exists>d g'. deflections (rt_Plane gals coords True) = Some d
        \<and> trace_to_next_plane (rt_Plane gals coords True) = Inr g'
        \<and> grid_minus_deflections coords d g'"
    by (simp add: rt_Plane_def trace_to_next_plane_def)
next
  show "Plane gals coords bord True cosmo = Inr p \<or>
     PlaneSlice gals coords z bord True cosmo = Inr p \<longrightarrow>
      grid_stack p = coords \<and>
      (\<exists>d g'. deflection_stack p = Some d
        \<and> trace_grid_stack_to_next_plane p = Inr g'
        \<and> grid_minus_deflections coords d g')"
  proof (rule impI)
    assume "Plane gals coords bord True cosmo = Inr p \<or>
       PlaneSlice gals coords z bord True cosmo = Inr p"
    then obtain z' where p: "p = AbstractGriddedPlane z' gals coords bord True cosmo"
      by (auto simp: Plane_def PlaneSlice_def Let_def split: list.splits if_splits)
    let ?d = "apply_function (calculate_deflections gals) coords"
    have "grid_minus_deflections coords ?d (map_function np_subtract coords ?d)"
      by (rule map_function_np_subtract)
         (simp_all add: apply_function_def calculate_deflections_shape)
    then show "grid_stack p = coords \<and>
        (\<exists>d g'. deflection_stack p = Some d
          \<and> trace_grid_stack_to_next_plane p = Inr g'
          \<and> grid_minus_deflections coords d g')"
      by (simp add: p AbstractGriddedPlane_def trace_grid_stack_to_next_plane_def)
  qed
qed


theorem trace_subtracts_deflections_witness:
  "Plane [lens_galaxy] [[(2, 4)]] None True toy_cosmology =
     Inr (AbstractGriddedPlane (Some (1/2)) [lens_galaxy] [[(2, 4)]] None True toy_cosmology)
   \<and> (\<exists>g'. trace_grid_stack_to_next_plane
         (AbstractGriddedPlane (Some (1/2)) [lens_galaxy] [[(2, 4)]] None True toy_cosmology)
          = Inr g' \<and> g' ! 0 ! 0 = (1, 2))
   \<and> (\<exists>g'. trace_to_next_plane (rt_Plane [lens_galaxy] [[(2, 4)]] True) = Inr g'
          \<and> g' ! 0 ! 0 = (1, 2))"
proof -
  let ?p = "AbstractGriddedPlane (Some (1/2)) [lens_galaxy] [[(2, 4)]] None True toy_cosmology"
  have p: "Plane [lens_galaxy] [[(2, 4)]] None True toy_cosmology = Inr ?p"
    by (simp add: Plane_def lens_galaxy_def)
  have d: "deflection_stack ?p = Some [Array [(1, 2)]]"
    by (simp add: AbstractGriddedPlane_def apply_function_def calculate_deflections_def
        py_sum_vec_def deflections_from_grid_def deflection_of_def lens_galaxy_def)
  have e: "deflections (rt_Plane [lens_galaxy] [[(2, 4)]] True) = Some [Array [(1, 2)]]"
    by (simp add: rt_Plane_def apply_function_def rt_calculate_deflections_def
        py_sum_vec_def deflections_from_grid_def deflection_of_def lens_galaxy_def)
  show ?thesis
    using p trace_subtracts_deflections [of "[lens_galaxy]" "[[(2, 4)]]" None toy_cosmology ?p]
    by (auto simp: d e grid_minus_deflections_def)
qed

section \<open>The planes of a MultiTracer\<close>

lemma same_shape_length: "length g = length g' \<Longrightarrow> same_shape g d = same_shape g' d"
  by (cases d) simp_all

lemma fits_same_lengths: "map length g = map length g' \<Longrightarrow> fits g d = fits g' d"
proof -
  assume a: "map length g = map length g'"
  then have l: "length g = length g'" by (rule map_eq_imp_length_eq)
  have "\<And>v. v < length g \<Longrightarrow> length (g ! v) = length (g' ! v)"
    using a l by (metis nth_map)
  then show ?thesis
    unfolding fits_def using l same_shape_length by (metis (no_types, lifting))
qed

lemma same_shape_np_multiply: "same_shape g (np_multiply s d) = same_shape g d"
  by (cases d) simp_all

lemma deflection_at_np_multiply:
  "same_shape g d \<Longrightarrow> i < length g \<Longrightarrow>
   deflection_at (np_multiply s d) i = vscale s (deflection_at d i)"
  by (cases d) simp_all

lemma vsub_vsub: "vsub (vsub a b) c = vsub a (vadd b c)"
  by (cases a; cases b; cases c) simp

lemma subtract_scaled_step:
  fixes s :: real
  assumes "fits g d"
  defines "g1 \<equiv> map_function np_subtract g (apply_function (np_multiply s) d)"
  shows "map length g1 = map length g"
    and "\<And>v i. v < length g \<Longrightarrow> i < length (g ! v) \<Longrightarrow>
           g1 ! v ! i = vsub (g ! v ! i) (vscale s (deflection_at (d ! v) i))"
proof -
  have l: "length d = length g" and sh: "\<And>v. v < length g \<Longrightarrow> same_shape (g ! v) (d ! v)"
    using assms(1) by (simp_all add: fits_def)
  have nth: "\<And>v. v < length g \<Longrightarrow> g1 ! v = np_subtract (g ! v) (np_multiply s (d ! v))"
    by (simp add: g1_def map_function_def apply_function_def l)
  have len: "length g1 = length g"
    by (simp add: g1_def map_function_def apply_function_def l)
  show "map length g1 = map length g"
    by (rule nth_equalityI)
       (simp_all add: len nth np_subtract_length same_shape_np_multiply sh)
  fix v i assume v: "v < length g" and i: "i < length (g ! v)"
  show "g1 ! v ! i = vsub (g ! v ! i) (vscale s (deflection_at (d ! v) i))"
    using v i sh [OF v]
    by (simp add: nth np_subtract_nth same_shape_np_multiply deflection_at_np_multiply)
qed

lemma py_index_nat: "py_index xs (int p) = (if p < length xs then Inr (xs ! p) else Inl IndexError)"
  by (simp add: py_index_def)

lemma new_grid_loop_Cons_Inr:
  assumes "new_grid_loop geo ps k g (p # rest) = Inr g'"
  shows "p < length ps"
    and "scaling_factor geo (int p) (int k) = Inr (applied_factor geo k p)"
    and "deflections (ps ! p) = Some (plane_deflections ps p)"
    and "new_grid_loop geo ps k
           (map_function np_subtract g
              (apply_function (np_multiply (applied_factor geo k p)) (plane_deflections ps p)))
           rest = Inr g'"
  using assms
  by (auto simp: py_index_nat applied_factor_def plane_deflections_def
      split: sum.splits option.splits if_splits)

lemma vsub_zero: "vsub a (0, 0) = a"
  by (cases a) simp

lemma vsum_Cons: "vsum (x # xs) = vadd x (vsum xs)"
  by (simp add: vsum_def)

lemma new_grid_loop_closed_form:
  assumes "new_grid_loop geo ps k g qs = Inr g'"
    and "\<forall>p \<in> set qs. fits g (plane_deflections ps p)"
  shows "map length g' = map length g \<and>
    (\<forall>v < length g. \<forall>i < length (g ! v).
       g' ! v ! i =
         vsub (g ! v ! i)
           (vsum (map (\<lambda>p. vscale (applied_factor geo k p)
                               (deflection_at (plane_deflections ps p ! v) i)) qs)))"
  using assms
proof (induction qs arbitrary: g)
  case Nil
  then show ?case by (simp add: vsum_def vsub_zero)
next
  case (Cons p rest)
  let ?s = "applied_factor geo k p"
  let ?d = "plane_deflections ps p"
  let ?g1 = "map_function np_subtract g (apply_function (np_multiply ?s) ?d)"
  have fit: "fits g ?d" using Cons.prems(2) by simp
  have run: "new_grid_loop geo ps k ?g1 rest = Inr g'"
    by (rule new_grid_loop_Cons_Inr(4) [OF Cons.prems(1)])
  have shape: "map length ?g1 = map length g"
    by (rule subtract_scaled_step(1) [OF fit])
  have step: "\<And>v i. v < length g \<Longrightarrow> i < length (g ! v) \<Longrightarrow>
      ?g1 ! v ! i = vsub (g ! v ! i) (vscale ?s (deflection_at (?d ! v) i))"
    by (rule subtract_scaled_step(2) [OF fit])
  have fits1: "\<forall>q \<in> set rest. fits ?g1 (plane_deflections ps q)"
    using Cons.prems(2) fits_same_lengths [OF shape] by simp
  note ih = Cons.IH [OF run fits1]
  have len: "length ?g1 = length g"
    using shape by (rule map_eq_imp_length_eq)
  have lenv: "\<And>v. v < length g \<Longrightarrow> length (?g1 ! v) = length (g ! v)"
    using shape len by (metis nth_map)
  show ?case
  proof (intro conjI allI impI)
    show "map length g' = map length g" using ih shape by simp
  next
    fix v i assume v: "v < length g" and i: "i < length (g ! v)"
    have "g' ! v ! i = vsub (?g1 ! v ! i)
           (vsum (map (\<lambda>p. vscale (applied_factor geo k p)
                               (deflection_at (plane_deflections ps p ! v) i)) rest))"
      using ih v i len lenv [OF v] by simp
    then show "g' ! v ! i = vsub (g ! v ! i)
           (vsum (map (\<lambda>p. vscale (applied_factor geo k p)
                               (deflection_at (plane_deflections ps p ! v) i)) (p # rest)))"
      by (simp add: step [OF v i] vsub_vsub vsum_Cons)
  qed
qed

lemma new_grid_loop_success:
  assumes "new_grid_loop geo ps k g qs = Inr g'" and "p \<in> set qs"
  shows "p < length ps
    \<and> scaling_factor geo (int p) (int k) = Inr (applied_factor geo k p)
    \<and> deflections (ps ! p) = Some (plane_deflections ps p)"
  using assms
proof (induction qs arbitrary: g)
  case Nil
  then show ?case by simp
next
  case (Cons q rest)
  note facts = new_grid_loop_Cons_Inr [OF Cons.prems(1)]
  show ?case
  proof (cases "p = q")
    case True
    then show ?thesis using facts(1-3) by simp
  next
    case False
    then have "p \<in> set rest" using Cons.prems(2) by simp
    then show ?thesis by (rule Cons.IH [OF facts(4)])
  qed
qed

lemma new_grid_loop_append:
  "\<forall>p \<in> set qs. p < length ps \<Longrightarrow>
   new_grid_loop geo (ps @ extra) k g qs = new_grid_loop geo ps k g qs"
  by (induction qs arbitrary: g)
     (auto simp: py_index_nat nth_append split: sum.splits option.splits)

lemma built_plane_append:
  assumes "built_plane geo n pgs grids ps k" and "k < length ps"
  shows "built_plane geo n pgs grids (ps @ extra) k"
proof -
  have "new_grid_loop geo (ps @ extra) k grids [0..<k] = new_grid_loop geo ps k grids [0..<k]"
    by (rule new_grid_loop_append) (use assms(2) in simp)
  then show ?thesis
    using assms by (auto simp: built_plane_def nth_append)
qed

lemma planes_loop_built:
  assumes "planes_loop geo n pgs grids ps ks = Inr res"
    and "ks = [length ps..<n]"
    and "\<forall>k < length ps. built_plane geo n pgs grids ps k"
  shows "length res = max n (length ps) \<and> (\<forall>k < length res. built_plane geo n pgs grids res k)"
  using assms
proof (induction ks arbitrary: ps)
  case Nil
  have "n \<le> length ps" using Nil.prems(2) [symmetric] by auto
  then show ?case using Nil.prems(1,3) by (simp add: max_def)
next
  case (Cons k rest)
  have k: "k = length ps" and kn: "k < n" and rest: "rest = [Suc k..<n]"
    using Cons.prems(2) [symmetric] by (auto simp: upt_eq_Cons_conv)
  let ?cd = "int k < int n - 1"
  obtain ng gals where
    ng: "(if 0 < k then new_grid_loop geo ps k grids [0..<k] else Inr grids) = Inr ng"
    and gals: "py_index pgs (int k) = Inr gals"
    and run: "planes_loop geo n pgs grids (ps @ [rt_Plane gals ng ?cd]) rest = Inr res"
    using Cons.prems(1) kn
    by (auto split: sum.splits if_splits)
  let ?ps = "ps @ [rt_Plane gals ng ?cd]"
  have new: "built_plane geo n pgs grids ?ps k"
  proof -
    have "new_grid_loop geo ?ps k grids [0..<k] = new_grid_loop geo ps k grids [0..<k]"
      by (rule new_grid_loop_append) (simp add: k)
    then show ?thesis
      using ng gals unfolding built_plane_def k
      by (auto split: if_splits)
  qed
  have all: "\<forall>j < length ?ps. built_plane geo n pgs grids ?ps j"
  proof (intro allI impI)
    fix j assume "j < length ?ps"
    then consider "j < length ps" | "j = k" using k by force
    then show "built_plane geo n pgs grids ?ps j"
    proof cases
      case 1
      then show ?thesis using Cons.prems(3) built_plane_append by blast
    next
      case 2
      then show ?thesis using new by simp
    qed
  qed
  have "rest = [length ?ps..<n]" using rest k by simp
  from Cons.IH [OF run this all] kn k show ?case by (simp add: max_def)
qed

lemma fits_rt_Plane_deflections:
  "fits g (apply_function (rt_calculate_deflections gals) g)"
  by (simp add: fits_def apply_function_def rt_calculate_deflections_shape)

lemma deflections_rt_Plane:
  "deflections (rt_Plane gals g cd) = Some d \<Longrightarrow>
   d = apply_function (rt_calculate_deflections gals) g"
  by (simp add: rt_Plane_def split: if_splits)

lemma built_plane_grid:
  assumes "built_plane geo n pgs grids all k"
  shows "(if 0 < k then new_grid_loop geo all k grids [0..<k] else Inr grids) =
           Inr (coordinates_collection (all ! k))"
  using assms by (auto simp: built_plane_def rt_Plane_def)

lemma built_plane_fits:
  assumes "built_plane geo n pgs grids all p"
    and "deflections (all ! p) = Some d"
    and "map length (coordinates_collection (all ! p)) = map length grids"
  shows "fits grids d"
proof -
  obtain ng gals where pl: "all ! p = rt_Plane gals ng (int p < int n - 1)"
    using assms(1) by (auto simp: built_plane_def)
  have cc: "coordinates_collection (all ! p) = ng"
    by (simp add: pl rt_Plane_def)
  have "d = apply_function (rt_calculate_deflections gals) ng"
    using assms(2) unfolding pl by (rule deflections_rt_Plane)
  then have "fits ng d" by (simp add: fits_rt_Plane_deflections)
  then show ?thesis using fits_same_lengths assms(3) cc by blast
qed

lemma built_planes_shape:
  assumes "\<forall>j < length all. built_plane geo n pgs grids all j" and "k < length all"
  shows "map length (coordinates_collection (all ! k)) = map length grids"
  using assms(2)
proof (induction k rule: less_induct)
  case (less k)
  have bk: "built_plane geo n pgs grids all k" using assms(1) less.prems by simp
  show ?case
  proof (cases "0 < k")
    case False
    then show ?thesis using built_plane_grid [OF bk] by simp
  next
    case True
    then have run: "new_grid_loop geo all k grids [0..<k] =
        Inr (coordinates_collection (all ! k))"
      using built_plane_grid [OF bk] by simp
    have "\<forall>p \<in> set [0..<k]. fits grids (plane_deflections all p)"
    proof
      fix p assume "p \<in> set [0..<k]"
      then have pk: "p < k" by simp
      have d: "deflections (all ! p) = Some (plane_deflections all p)"
        using new_grid_loop_success [OF run] pk by simp
      have bp: "built_plane geo n pgs grids all p"
        using assms(1) pk less.prems by simp
      have "map length (coordinates_collection (all ! p)) = map length grids"
        using less.IH [OF pk] pk less.prems by simp
      then show "fits grids (plane_deflections all p)"
        by (rule built_plane_fits [OF bp d])
    qed
    then show ?thesis
      using new_grid_loop_closed_form [OF run] by simp
  qed
qed

lemma fst_vadd: "fst (vadd a b) = fst a + fst b"
  by (cases a; cases b) simp

lemma snd_vadd: "snd (vadd a b) = snd a + snd b"
  by (cases a; cases b) simp

lemma fst_vsum: "fst (vsum xs) = sum_list (map fst xs)"
  by (induction xs) (simp_all add: vsum_def fst_vadd)

lemma snd_vsum: "snd (vsum xs) = sum_list (map snd xs)"
  by (induction xs) (simp_all add: vsum_def snd_vadd)

lemma sum_list_upt: "sum_list (map f [0..<k]) = (\<Sum>p<k. f p)"
  by (simp add: interv_sum_list_conv_sum_set_nat atLeast0LessThan)

lemma fst_vsub: "fst (vsub a b) = fst a - fst b"
  by (cases a; cases b) simp

lemma snd_vsub: "snd (vsub a b) = snd a - snd b"
  by (cases a; cases b) simp

lemma fst_vscale: "fst (vscale s a) = s * fst a"
  by (cases a) simp

lemma snd_vscale: "snd (vscale s a) = s * snd a"
  by (cases a) simp

lemma built_planes_cumulative:
  assumes all: "\<forall>j < length all. built_plane geo n pgs grids all j"
    and k: "k < length all" "0 < k"
  shows "(\<forall>p < k. scaling_factor geo (int p) (int k) = Inr (applied_factor geo k p)
              \<and> deflections (all ! p) = Some (plane_deflections all p))
    \<and> length (coordinates_collection (all ! k)) = length grids
    \<and> (\<forall>v < length grids.
          length (coordinates_collection (all ! k) ! v) = length (grids ! v)
          \<and> (\<forall>i < length (grids ! v).
               fst (coordinates_collection (all ! k) ! v ! i) =
                 fst (grids ! v ! i) -
                 (\<Sum>p<k. applied_factor geo k p *
                          fst (deflection_at (plane_deflections all p ! v) i))
             \<and> snd (coordinates_collection (all ! k) ! v ! i) =
                 snd (grids ! v ! i) -
                 (\<Sum>p<k. applied_factor geo k p *
                          snd (deflection_at (plane_deflections all p ! v) i))))"
proof -
  let ?cc = "coordinates_collection (all ! k)"
  have bk: "built_plane geo n pgs grids all k" using all k by simp
  have run: "new_grid_loop geo all k grids [0..<k] = Inr ?cc"
    using built_plane_grid [OF bk] k by simp
  have ok: "\<forall>p < k. scaling_factor geo (int p) (int k) = Inr (applied_factor geo k p)
              \<and> deflections (all ! p) = Some (plane_deflections all p)"
    using new_grid_loop_success [OF run] by simp
  have fit: "\<forall>p \<in> set [0..<k]. fits grids (plane_deflections all p)"
  proof
    fix p assume "p \<in> set [0..<k]"
    then have pk: "p < k" by simp
    then have pl: "p < length all" using k by simp
    show "fits grids (plane_deflections all p)"
      using built_plane_fits [of geo n pgs grids all p] all pl ok pk
        built_planes_shape [OF all pl] by simp
  qed
  note cf = new_grid_loop_closed_form [OF run fit]
  have shape: "map length ?cc = map length grids" using cf by simp
  then have len: "length ?cc = length grids" by (rule map_eq_imp_length_eq)
  have lenv: "\<And>v. v < length grids \<Longrightarrow> length (?cc ! v) = length (grids ! v)"
    using shape len by (metis nth_map)
  show ?thesis
    using ok len lenv cf
    by (simp add: fst_vsub snd_vsub fst_vsum snd_vsum comp_def fst_vscale snd_vscale
        sum_list_upt)
qed

lemma MultiTracer_parts:
  assumes "MultiTracer gals grids cosmo = Inr t"
  shows "sorted_by_redshift gals = Inr (galaxies_redshift_order t)"
    and "planes_redshift_order t =
           first_occurrences (map redshift (galaxies_redshift_order t))"
    and "TracerGeometry (planes_redshift_order t) cosmo = Inr (mt_geometry t)"
    and "planes_galaxies t =
           map (\<lambda>z. filter (\<lambda>g. redshift g = z) (galaxies_redshift_order t))
             (planes_redshift_order t)"
    and "planes_loop (mt_geometry t) (length (planes_redshift_order t)) (planes_galaxies t)
           grids [] [0..<length (planes_redshift_order t)] = Inr (planes t)"
  using assms
  by (auto simp: MultiTracer_def Let_def split: sum.splits)

lemma MultiTracer_built:
  assumes "MultiTracer gals grids cosmo = Inr t"
  shows "length (planes t) = length (planes_redshift_order t)"
    and "0 < length (planes t)"
    and "\<forall>k < length (planes t).
           built_plane (mt_geometry t) (length (planes t)) (planes_galaxies t) grids
             (planes t) k"
proof -
  note parts = MultiTracer_parts [OF assms]
  have b: "length (planes t) = max (length (planes_redshift_order t)) (length ([]::rt_plane list))
     \<and> (\<forall>k < length (planes t).
           built_plane (mt_geometry t) (length (planes_redshift_order t)) (planes_galaxies t)
             grids (planes t) k)"
    by (rule planes_loop_built [OF parts(5)]) simp_all
  then show l: "length (planes t) = length (planes_redshift_order t)" by simp
  show "0 < length (planes t)"
    using parts(3) l TracerGeometry_empty [of cosmo] by (cases "planes_redshift_order t") auto
  show "\<forall>k < length (planes t).
           built_plane (mt_geometry t) (length (planes t)) (planes_galaxies t) grids
             (planes t) k"
    using b l by simp
qed

subsection \<open>The three-plane system evaluated\<close>

lemma toy_redshifts:
  "redshift lens_galaxy = Some (1/2)" "redshift second_lens_galaxy = Some 1"
  "redshift source_galaxy = Some 1" "redshift far_galaxy = Some 2"
  by (simp_all add: lens_galaxy_def second_lens_galaxy_def source_galaxy_def far_galaxy_def)

lemma toy_sorted:
  "sorted_by_redshift [far_galaxy, second_lens_galaxy, lens_galaxy, source_galaxy] =
   Inr [lens_galaxy, second_lens_galaxy, source_galaxy, far_galaxy]"
  by (simp add: sorted_by_redshift_def toy_redshifts redshift_key_def)

lemma toy_first_occurrences:
  "first_occurrences [Some (1/2), Some 1, Some 1, Some (2::real)] = [Some (1/2), Some 1, Some 2]"
  by (simp add: first_occurrences_def enumerate_eq_zip upt_rec [of 0] upt_rec [of 1]
        upt_rec [of 2] upt_rec [of 3] upt_rec [of 4])

lemma toy_TracerGeometry:
  "TracerGeometry [Some (1/2), Some 1, Some 2] toy_cosmology = Inr toy_geometry_3"
  by (simp add: TracerGeometry_def toy_geometry_3_def toy_cosmology_def ang_to_earth_of_def
        py_index_def need_redshift_def)

lemma toy_scaling_factors:
  "scaling_factor toy_geometry_3 0 1 = Inr (2/3)"
  "scaling_factor toy_geometry_3 0 2 = Inr 1"
  "scaling_factor toy_geometry_3 1 2 = Inr 1"
  by (simp_all add: scaling_factor_def ang_between_planes_def ang_to_earth_def
        ang_to_earth_of_def toy_geometry_3_def toy_cosmology_def py_index_def need_redshift_def)

lemma toy_deflections:
  "deflections (rt_Plane [lens_galaxy] [[(2, 4)]] True) = Some [Array [(1, 2)]]"
  "deflections (rt_Plane [second_lens_galaxy, source_galaxy] [[(4/3, 8/3)]] True) =
     Some [Array [(1, 1)]]"
  by (simp_all add: rt_Plane_def apply_function_def rt_calculate_deflections_def
        py_sum_vec_def deflections_from_grid_def deflection_of_def lens_galaxy_def
        second_lens_galaxy_def source_galaxy_def)

lemma toy_new_grids:
  "new_grid_loop toy_geometry_3 [rt_Plane [lens_galaxy] [[(2, 4)]] True] 1 [[(2, 4)]] [0] =
     Inr [[(4/3, 8/3)]]"
  "new_grid_loop toy_geometry_3
     [rt_Plane [lens_galaxy] [[(2, 4)]] True,
      rt_Plane [second_lens_galaxy, source_galaxy] [[(4/3, 8/3)]] True] 2 [[(2, 4)]] [0, 1] =
     Inr [[(0, 1)]]"
  using toy_scaling_factors
  by (simp_all add: toy_deflections py_index_def map_function_def apply_function_def)

lemma toy_planes_loop:
  "planes_loop toy_geometry_3 3
     [[lens_galaxy], [second_lens_galaxy, source_galaxy], [far_galaxy]] [[(2, 4)]] [] [0, 1, 2] =
   Inr [rt_Plane [lens_galaxy] [[(2, 4)]] True,
        rt_Plane [second_lens_galaxy, source_galaxy] [[(4/3, 8/3)]] True,
        rt_Plane [far_galaxy] [[(0, 1)]] False]"
proof -
  let ?pg = "[[lens_galaxy], [second_lens_galaxy, source_galaxy], [far_galaxy]]"
  let ?p0 = "rt_Plane [lens_galaxy] [[(2, 4)]] True"
  let ?p1 = "rt_Plane [second_lens_galaxy, source_galaxy] [[(4/3, 8/3)]] True"
  let ?p2 = "rt_Plane [far_galaxy] [[(0, 1)]] False"
  have "planes_loop toy_geometry_3 3 ?pg [[(2, 4)]] [] [0, 1, 2] =
        planes_loop toy_geometry_3 3 ?pg [[(2, 4)]] [?p0] [1, 2]"
    by (subst planes_loop.simps) (simp add: py_index_def del: planes_loop.simps)
  also have "\<dots> = planes_loop toy_geometry_3 3 ?pg [[(2, 4)]] [?p0, ?p1] [2]"
    using toy_scaling_factors
    by (subst planes_loop.simps)
       (simp add: toy_deflections py_index_def map_function_def apply_function_def
          del: planes_loop.simps)
  also have "\<dots> = planes_loop toy_geometry_3 3 ?pg [[(2, 4)]] [?p0, ?p1, ?p2] []"
    using toy_scaling_factors
    by (subst planes_loop.simps)
       (simp add: toy_deflections py_index_def map_function_def apply_function_def
          upt_rec [of 0] upt_rec [of "Suc 0"] del: planes_loop.simps)
  also have "\<dots> = Inr [?p0, ?p1, ?p2]"
    by simp
  finally show ?thesis .
qed

lemma toy_MultiTracer:
  "MultiTracer [far_galaxy, second_lens_galaxy, lens_galaxy, source_galaxy] [[(2, 4)]]
     toy_cosmology = Inr toy_multi_tracer"
proof -
  have pg: "map (\<lambda>z. filter (\<lambda>g. redshift g = z)
                  [lens_galaxy, second_lens_galaxy, source_galaxy, far_galaxy])
              [Some (1/2), Some 1, Some 2] =
            [[lens_galaxy], [second_lens_galaxy, source_galaxy], [far_galaxy]]"
    by (simp add: toy_redshifts)
  have n: "length [Some (1/2), Some 1, Some (2::real)] = 3"
    by simp
  have u: "[0..<3] = [0, 1, 2::nat]"
    by code_simp
  have zs: "map redshift [lens_galaxy, second_lens_galaxy, source_galaxy, far_galaxy] =
      [Some (1/2), Some 1, Some 1, Some 2]"
    by (simp add: toy_redshifts)
  show ?thesis
    by (simp only: MultiTracer_def toy_sorted sum.case Let_def zs toy_first_occurrences
        toy_TracerGeometry pg n u toy_planes_loop toy_multi_tracer_def)
qed

lemma coordinates_collection_rt_Plane [simp]:
  "coordinates_collection (rt_Plane gals g cd) = g"
  by (simp add: rt_Plane_def)

lemma galaxies_rt_Plane [simp]: "galaxies (rt_Plane gals g cd) = gals"
  by (simp add: rt_Plane_def)

lemma deflections_rt_Plane_False [simp]: "deflections (rt_Plane gals g False) = None"
  by (simp add: rt_Plane_def)

lemma deflections_rt_Plane_True:
  "deflections (rt_Plane gals g True) = Some (apply_function (rt_calculate_deflections gals) g)"
  by (simp add: rt_Plane_def)

lemma toy_Tracer:
  "Tracer [lens_galaxy] [source_galaxy] [[(2, 4)]] None = Inr toy_two_plane_tracer"
  by (simp add: Tracer_def trace_to_next_plane_def toy_deflections map_function_def
        toy_two_plane_tracer_def Let_def)

subsection \<open>The order of the planes\<close>

lemma first_occurrences_snoc:
  "first_occurrences (xs @ [x]) = first_occurrences xs @ (if x \<in> set xs then [] else [x])"
proof -
  have "filter (\<lambda>(i, z). z \<notin> set (take i (xs @ [x]))) (enumerate 0 xs) =
        filter (\<lambda>(i, z). z \<notin> set (take i xs)) (enumerate 0 xs)"
    by (rule filter_cong) (auto simp: in_set_enumerate_eq)
  then show ?thesis
    by (simp add: first_occurrences_def enumerate_append_eq)
qed

lemma set_first_occurrences: "set (first_occurrences xs) = set xs"
proof (induction xs rule: rev_induct)
  case Nil
  show ?case by (simp add: first_occurrences_def)
next
  case (snoc x xs)
  then show ?case by (auto simp: first_occurrences_snoc)
qed

lemma increasing_first_occurrences:
  "sorted rs \<Longrightarrow> increasing_redshifts (first_occurrences (map Some rs))"
proof (induction rs rule: rev_induct)
  case Nil
  show ?case by (simp add: increasing_redshifts_def first_occurrences_def)
next
  case (snoc r rs)
  have s: "sorted rs" and le: "\<forall>x \<in> set rs. x \<le> r"
    using snoc.prems by (auto simp: sorted_append)
  show ?case
  proof (cases "r \<in> set rs")
    case True
    then show ?thesis using snoc.IH [OF s] by (simp add: first_occurrences_snoc)
  next
    case False
    then have "\<forall>x \<in> set rs. x < r" using le by (auto simp: less_le)
    then show ?thesis
      using snoc.IH [OF s] False
      by (auto simp: first_occurrences_snoc increasing_redshifts_def sorted_wrt_append
          set_first_occurrences)
  qed
qed

lemma sorted_by_redshift_increasing:
  assumes "sorted_by_redshift gals = Inr ordered"
  shows "increasing_redshifts (first_occurrences (map redshift ordered))"
proof (cases "list_ex (\<lambda>g. redshift g = None) gals")
  case True
  then have "length gals \<le> 1" and o: "ordered = sort_key redshift_key gals"
    using assms by (auto simp: sorted_by_redshift_def split: if_splits)
  then have "length ordered \<le> 1" by simp
  then have "ordered = [] \<or> (\<exists>g. ordered = [g])"
    by (cases ordered) auto
  then show ?thesis
    by (auto simp: increasing_redshifts_def first_occurrences_def)
next
  case False
  have o: "ordered = sort_key redshift_key gals"
    using assms by (auto simp: sorted_by_redshift_def split: if_splits)
  have "\<forall>g \<in> set ordered. redshift g = Some (redshift_key g)"
    using False by (auto simp: o list_ex_iff redshift_key_def)
  then have "map redshift ordered = map Some (map redshift_key ordered)"
    by simp
  moreover have "sorted (map redshift_key ordered)"
    by (simp add: o)
  ultimately show ?thesis
    using increasing_first_occurrences by metis
qed

subsection \<open>The claims about tracers\<close>

lemma TracerGeometry_None: "TracerGeometry [None] cosmo = Inl TypeError"
  by (simp add: TracerGeometry_def ang_to_earth_of_def py_index_def need_redshift_def)

lemma MultiTracer_redshifts_numbers:
  assumes "MultiTracer gals grids cosmo = Inr t"
  shows "None \<notin> set (planes_redshift_order t)"
proof (cases "list_ex (\<lambda>g. redshift g = None) gals")
  case False
  note parts = MultiTracer_parts [OF assms]
  have "galaxies_redshift_order t = sort_key redshift_key gals"
    using parts(1) by (auto simp: sorted_by_redshift_def split: if_splits)
  then have "set (galaxies_redshift_order t) = set gals" by simp
  then show ?thesis
    using False by (auto simp: parts(2) set_first_occurrences list_ex_iff)
next
  case True
  note parts = MultiTracer_parts [OF assms]
  have "length gals \<le> 1" and o: "galaxies_redshift_order t = sort_key redshift_key gals"
    using parts(1) True by (auto simp: sorted_by_redshift_def split: if_splits)
  then obtain g where g: "gals = [g]" and z: "redshift g = None"
    using True by (cases gals) (auto simp: list_ex_iff)
  have "planes_redshift_order t = [None]"
    by (simp add: parts(2) o g z first_occurrences_def)
  then show ?thesis
    using parts(3) TracerGeometry_None [of cosmo] by simp
qed

lemma built_plane_fields:
  assumes "built_plane geo n pgs grids all k" and "k < length pgs"
  shows "galaxies (all ! k) = pgs ! k"
    and "Suc k < n \<Longrightarrow> deflections (all ! k) \<noteq> None"
    and "\<not> Suc k < n \<Longrightarrow> deflections (all ! k) = None"
proof -
  obtain ng gals where g: "py_index pgs (int k) = Inr gals"
    and pl: "all ! k = rt_Plane gals ng (int k < int n - 1)"
    using assms(1) by (auto simp: built_plane_def)
  have "gals = pgs ! k" using g assms(2) by (simp add: py_index_nat)
  then show "galaxies (all ! k) = pgs ! k" by (simp add: pl)
  show "Suc k < n \<Longrightarrow> deflections (all ! k) \<noteq> None"
    by (simp add: pl rt_Plane_def)
  show "\<not> Suc k < n \<Longrightarrow> deflections (all ! k) = None"
    by (auto simp: pl rt_Plane_def)
qed

text \<open>
  C5: in every tracer that was built, the last plane has no deflection field and every
  earlier plane has one. For the two-plane \<open>Tracer\<close> the last plane is the source
  plane. For the \<open>MultiTracer\<close> there is at least one plane, one per distinct
  redshift; the redshifts of the planes are numbers that increase strictly, so the last
  plane is the one at the highest redshift, and plane \<open>k\<close> holds the galaxies of the
  \<open>k\<close>-th redshift.
\<close>

theorem last_plane_has_no_deflections:
  "(Tracer lens_gals source_gals grids cosmo_opt = Inr t \<longrightarrow>
      deflections (image_plane t) \<noteq> None \<and> deflections (source_plane t) = None)
 \<and> (MultiTracer gals grids cosmo = Inr mt \<longrightarrow>
      planes mt \<noteq> []
    \<and> length (planes mt) = length (planes_redshift_order mt)
    \<and> deflections (last (planes mt)) = None
    \<and> (\<forall>k. Suc k < length (planes mt) \<longrightarrow> deflections (planes mt ! k) \<noteq> None)
    \<and> (\<forall>k < length (planes mt).
          galaxies (planes mt ! k) =
            filter (\<lambda>g. redshift g = planes_redshift_order mt ! k)
              (galaxies_redshift_order mt))
    \<and> None \<notin> set (planes_redshift_order mt)
    \<and> increasing_redshifts (planes_redshift_order mt))"
proof (rule conjI)
  show "Tracer lens_gals source_gals grids cosmo_opt = Inr t \<longrightarrow>
      deflections (image_plane t) \<noteq> None \<and> deflections (source_plane t) = None"
    by (auto simp: Tracer_def Let_def rt_Plane_def split: sum.splits option.splits)
next
  show "MultiTracer gals grids cosmo = Inr mt \<longrightarrow>
      planes mt \<noteq> []
    \<and> length (planes mt) = length (planes_redshift_order mt)
    \<and> deflections (last (planes mt)) = None
    \<and> (\<forall>k. Suc k < length (planes mt) \<longrightarrow> deflections (planes mt ! k) \<noteq> None)
    \<and> (\<forall>k < length (planes mt).
          galaxies (planes mt ! k) =
            filter (\<lambda>g. redshift g = planes_redshift_order mt ! k)
              (galaxies_redshift_order mt))
    \<and> None \<notin> set (planes_redshift_order mt)
    \<and> increasing_redshifts (planes_redshift_order mt)"
  proof (rule impI)
    assume mt: "MultiTracer gals grids cosmo = Inr mt"
    note parts = MultiTracer_parts [OF mt]
    note built = MultiTracer_built [OF mt]
    let ?n = "length (planes mt)"
    have lpg: "length (planes_galaxies mt) = ?n"
      by (simp add: parts(4) built(1))
    have fields: "\<And>k. k < ?n \<Longrightarrow>
        built_plane (mt_geometry mt) ?n (planes_galaxies mt) grids (planes mt) k"
      using built(3) by simp
    have ne: "planes mt \<noteq> []" using built(2) by auto
    have "last (planes mt) = planes mt ! (?n - 1)"
      by (rule last_conv_nth [OF ne])
    moreover have "deflections (planes mt ! (?n - 1)) = None"
      using built_plane_fields(3) [OF fields, of "?n - 1"] built(2) lpg by simp
    ultimately have last: "deflections (last (planes mt)) = None" by simp
    have earlier: "\<forall>k. Suc k < ?n \<longrightarrow> deflections (planes mt ! k) \<noteq> None"
      using built_plane_fields(2) [OF fields] lpg by simp
    have gals: "\<forall>k < ?n. galaxies (planes mt ! k) =
            filter (\<lambda>g. redshift g = planes_redshift_order mt ! k)
              (galaxies_redshift_order mt)"
    proof (intro allI impI)
      fix k assume k: "k < ?n"
      have "galaxies (planes mt ! k) = planes_galaxies mt ! k"
        using built_plane_fields(1) [OF fields [OF k]] k lpg by simp
      also have "\<dots> = filter (\<lambda>g. redshift g = planes_redshift_order mt ! k)
              (galaxies_redshift_order mt)"
        using k built(1) by (subst parts(4)) simp
      finally show "galaxies (planes mt ! k) =
            filter (\<lambda>g. redshift g = planes_redshift_order mt ! k)
              (galaxies_redshift_order mt)" .
    qed
    have inc: "increasing_redshifts (planes_redshift_order mt)"
      using sorted_by_redshift_increasing [OF parts(1)] parts(2) by simp
    show "planes mt \<noteq> []
    \<and> length (planes mt) = length (planes_redshift_order mt)
    \<and> deflections (last (planes mt)) = None
    \<and> (\<forall>k. Suc k < length (planes mt) \<longrightarrow> deflections (planes mt ! k) \<noteq> None)
    \<and> (\<forall>k < length (planes mt).
          galaxies (planes mt ! k) =
            filter (\<lambda>g. redshift g = planes_redshift_order mt ! k)
              (galaxies_redshift_order mt))
    \<and> None \<notin> set (planes_redshift_order mt)
    \<and> increasing_redshifts (planes_redshift_order mt)"
      using ne built(1) last earlier gals inc MultiTracer_redshifts_numbers [OF mt] by blast
  qed
qed

theorem last_plane_has_no_deflections_witness:
  "Tracer [lens_galaxy] [source_galaxy] [[(2, 4)]] None = Inr toy_two_plane_tracer
   \<and> deflections (image_plane toy_two_plane_tracer) \<noteq> None
   \<and> deflections (source_plane toy_two_plane_tracer) = None
   \<and> MultiTracer [far_galaxy, second_lens_galaxy, lens_galaxy, source_galaxy] [[(2, 4)]]
       toy_cosmology = Inr toy_multi_tracer
   \<and> length (planes toy_multi_tracer) = 3
   \<and> deflections (last (planes toy_multi_tracer)) = None
   \<and> deflections (planes toy_multi_tracer ! 0) \<noteq> None
   \<and> deflections (planes toy_multi_tracer ! 1) \<noteq> None
   \<and> increasing_redshifts (planes_redshift_order toy_multi_tracer)"
proof -
  note th = last_plane_has_no_deflections [of "[lens_galaxy]" "[source_galaxy]" "[[(2, 4)]]" None toy_two_plane_tracer
      "[far_galaxy, second_lens_galaxy, lens_galaxy, source_galaxy]" toy_cosmology
      toy_multi_tracer]
  have a: "deflections (image_plane toy_two_plane_tracer) \<noteq> None
     \<and> deflections (source_plane toy_two_plane_tracer) = None"
    using th toy_Tracer by blast
  have b: "planes toy_multi_tracer \<noteq> []
    \<and> length (planes toy_multi_tracer) = length (planes_redshift_order toy_multi_tracer)
    \<and> deflections (last (planes toy_multi_tracer)) = None
    \<and> (\<forall>k. Suc k < length (planes toy_multi_tracer) \<longrightarrow>
           deflections (planes toy_multi_tracer ! k) \<noteq> None)
    \<and> increasing_redshifts (planes_redshift_order toy_multi_tracer)"
    using th toy_MultiTracer by blast
  have l: "length (planes toy_multi_tracer) = 3"
    by (simp add: toy_multi_tracer_def)
  have "deflections (planes toy_multi_tracer ! 0) \<noteq> None"
    "deflections (planes toy_multi_tracer ! 1) \<noteq> None"
    using b l by simp_all
  then show ?thesis
    using a b l toy_Tracer toy_MultiTracer by simp
qed

text \<open>
  C1: in a \<open>MultiTracer\<close> that was built, for every plane index \<open>k > 0\<close> every
  scaling factor \<open>sf p\<close> between a prior plane \<open>p < k\<close> and plane \<open>k\<close> and every
  deflection field \<open>d p\<close> of a prior plane exist, the grid bundle of plane \<open>k\<close> has the
  shape of the input bundle, and each of its coordinates is the input coordinate minus
  the sum over all \<open>p < k\<close> of \<open>sf p\<close> times the deflection of plane \<open>p\<close> there.
\<close>

theorem multi_plane_grid_is_cumulative:
  assumes "MultiTracer gals grids cosmo = Inr t" and "0 < k" and "k < length (planes t)"
  shows "\<exists>sf d.
     (\<forall>p < k. scaling_factor (mt_geometry t) (int p) (int k) = Inr (sf p)
              \<and> deflections (planes t ! p) = Some (d p))
    \<and> length (coordinates_collection (planes t ! k)) = length grids
    \<and> (\<forall>v < length grids.
          length (coordinates_collection (planes t ! k) ! v) = length (grids ! v)
          \<and> (\<forall>i < length (grids ! v).
               fst (coordinates_collection (planes t ! k) ! v ! i) =
                 fst (grids ! v ! i) - (\<Sum>p<k. sf p * fst (deflection_at (d p ! v) i))
             \<and> snd (coordinates_collection (planes t ! k) ! v ! i) =
                 snd (grids ! v ! i) - (\<Sum>p<k. sf p * snd (deflection_at (d p ! v) i))))"
proof -
  note built = MultiTracer_built [OF assms(1)]
  note c = built_planes_cumulative [OF built(3) assms(3) assms(2)]
  show ?thesis
    by (rule exI [of _ "applied_factor (mt_geometry t) k"],
        rule exI [of _ "plane_deflections (planes t)"]) (rule c)
qed

theorem multi_plane_grid_is_cumulative_witness:
  "MultiTracer [far_galaxy, second_lens_galaxy, lens_galaxy, source_galaxy] [[(2, 4)]]
     toy_cosmology = Inr toy_multi_tracer
   \<and> (0::nat) < 2 \<and> 2 < length (planes toy_multi_tracer)
   \<and> fst (coordinates_collection (planes toy_multi_tracer ! 2) ! 0 ! 0) = 0
   \<and> snd (coordinates_collection (planes toy_multi_tracer ! 2) ! 0 ! 0) = 1"
proof -
  have l: "2 < length (planes toy_multi_tracer)"
    by (simp add: toy_multi_tracer_def)
  have g: "mt_geometry toy_multi_tracer = toy_geometry_3"
    by (simp add: toy_multi_tracer_def)
  have p0: "planes toy_multi_tracer ! 0 = rt_Plane [lens_galaxy] [[(2, 4)]] True"
    and p1: "planes toy_multi_tracer ! Suc 0 =
               rt_Plane [second_lens_galaxy, source_galaxy] [[(4/3, 8/3)]] True"
    by (simp_all add: toy_multi_tracer_def)
  obtain sf d where
    ok: "\<forall>p < 2. scaling_factor (mt_geometry toy_multi_tracer) (int p) (int 2) = Inr (sf p)
              \<and> deflections (planes toy_multi_tracer ! p) = Some (d p)"
    and eq: "\<forall>v < length [[(2::real, 4::real)]].
          length (coordinates_collection (planes toy_multi_tracer ! 2) ! v) =
            length ([[(2::real, 4::real)]] ! v)
          \<and> (\<forall>i < length ([[(2::real, 4::real)]] ! v).
               fst (coordinates_collection (planes toy_multi_tracer ! 2) ! v ! i) =
                 fst ([[(2, 4)]] ! v ! i) - (\<Sum>p<2. sf p * fst (deflection_at (d p ! v) i))
             \<and> snd (coordinates_collection (planes toy_multi_tracer ! 2) ! v ! i) =
                 snd ([[(2, 4)]] ! v ! i) - (\<Sum>p<2. sf p * snd (deflection_at (d p ! v) i)))"
    using multi_plane_grid_is_cumulative [OF toy_MultiTracer _ l] by auto
  have s0: "sf 0 = 1" and d0: "d 0 = [Array [(1, 2)]]"
    using ok [rule_format, of 0] toy_scaling_factors(2) toy_deflections(1)
    by (simp_all add: g p0)
  have s1: "sf (Suc 0) = 1" and d1: "d (Suc 0) = [Array [(1, 1)]]"
    using ok [rule_format, of "Suc 0"] toy_scaling_factors(3) toy_deflections(2)
    by (simp_all add: g p1)
  have "fst (coordinates_collection (planes toy_multi_tracer ! 2) ! 0 ! 0) = 0
      \<and> snd (coordinates_collection (planes toy_multi_tracer ! 2) ! 0 ! 0) = 1"
    using eq by (simp add: s0 s1 d0 d1 numeral_2_eq_2)
  then show ?thesis
    using toy_MultiTracer l by simp
qed

end
